theory Spec2Isabelle
  imports Complex_Main
begin

section \<open>Python errors and tensors\<close>

text \<open>
  The exceptions that \<^verbatim>\<open>general_dit_ctrl_enc_multicamera.py\<close> can raise, as values.
  \<open>RuntimeError\<close> stands for every error raised by torch or einops on tensors whose
  shapes do not fit an operation.
\<close>

datatype error =
    AssertionError
  | KeyError
  | ValueError
  | IndexError
  | TypeError
  | AttributeError
  | ZeroDivisionError
  | NotImplementedError
  | RuntimeError

text \<open>
  A tensor is its shape and its elements in row-major order. Elements are exact reals:
  rounding, infinities and NaN of floating point are outside the model.
\<close>

record tensor =
  shape :: "nat list"
  elems :: "real list"

definition numel :: "nat list \<Rightarrow> nat" where
  "numel s = prod_list s"

definition ndim :: "tensor \<Rightarrow> nat" where
  "ndim t = length (shape t)"

definition zeros :: "nat list \<Rightarrow> tensor" where
  "zeros s = \<lparr>shape = s, elems = replicate (numel s) 0\<rparr>"

text \<open>The zero tensor of any shape: every element is \<open>0\<close>.\<close>

definition zero_tensor :: "tensor \<Rightarrow> bool" where
  "zero_tensor t = list_all (\<lambda>v. v = 0) (elems t)"

text \<open>\<^verbatim>\<open>t.size(i)\<close> and \<^verbatim>\<open>t.shape[i]\<close>: IndexError past the rank.\<close>

definition size_at :: "tensor \<Rightarrow> nat \<Rightarrow> error + nat" where
  "size_at t i = (if i < length (shape t) then Inr (shape t ! i) else Inl IndexError)"

text \<open>\<open>chunks k n xs\<close>: the first \<open>k\<close> consecutive blocks of \<open>n\<close> elements of \<open>xs\<close>.\<close>

fun chunks :: "nat \<Rightarrow> nat \<Rightarrow> 'a list \<Rightarrow> 'a list list" where
  "chunks 0 n xs = []"
| "chunks (Suc k) n xs = take n xs # chunks k n (drop n xs)"

subsection \<open>Concatenation and slicing along an axis\<close>

fun cat_elems :: "nat \<Rightarrow> nat list \<Rightarrow> real list \<Rightarrow> nat list \<Rightarrow> real list \<Rightarrow> real list" where
  "cat_elems (Suc d) (n # sa) xs (m # sb) ys =
     concat (map (\<lambda>(ca, cb). cat_elems d sa ca sb cb)
       (zip (chunks n (numel sa) xs) (chunks n (numel sb) ys)))"
| "cat_elems d sa xs sb ys = xs @ ys"

text \<open>
  Two tensors can be concatenated along \<open>d\<close> when they have the same rank, \<open>d\<close> is an
  axis of it, and all other axes agree.
\<close>

definition cat_compatible :: "nat \<Rightarrow> nat list \<Rightarrow> nat list \<Rightarrow> bool" where
  "cat_compatible d sa sb =
     (length sa = length sb \<and> d < length sa \<and> sa[d := 0] = sb[d := 0])"

definition cat2 :: "nat \<Rightarrow> tensor \<Rightarrow> tensor \<Rightarrow> error + tensor" where
  "cat2 d a b =
     (if cat_compatible d (shape a) (shape b)
      then Inr \<lparr>shape = (shape a)[d := shape a ! d + shape b ! d],
                elems = cat_elems d (shape a) (elems a) (shape b) (elems b)\<rparr>
      else Inl RuntimeError)"

text \<open>\<^verbatim>\<open>torch.cat(ts, dim=d)\<close>; an empty list is an error of torch.\<close>

fun torch_cat :: "tensor list \<Rightarrow> nat \<Rightarrow> error + tensor" where
  "torch_cat [] d = Inl RuntimeError"
| "torch_cat [t] d = (if d < length (shape t) then Inr t else Inl IndexError)"
| "torch_cat (t # u # ts) d =
     (case cat2 d t u of Inl e \<Rightarrow> Inl e | Inr tu \<Rightarrow> torch_cat (tu # ts) d)"

fun slice_elems :: "nat \<Rightarrow> nat \<Rightarrow> nat \<Rightarrow> nat list \<Rightarrow> real list \<Rightarrow> real list" where
  "slice_elems 0 lo hi (n # s) xs = take ((hi - lo) * numel s) (drop (lo * numel s) xs)"
| "slice_elems (Suc d) lo hi (n # s) xs =
     concat (map (slice_elems d lo hi s) (chunks n (numel s) xs))"
| "slice_elems d lo hi [] xs = xs"

text \<open>
  \<^verbatim>\<open>t[:, ..., lo:hi]\<close> with the slice on axis \<open>d\<close>. Python clamps both bounds to the
  axis length, and an empty range gives an axis of length \<open>0\<close>.
\<close>

definition slice_axis :: "nat \<Rightarrow> nat \<Rightarrow> nat \<Rightarrow> tensor \<Rightarrow> error + tensor" where
  "slice_axis d lo hi t =
     (if d < length (shape t)
      then (let n = shape t ! d; l = min lo n; h = max l (min hi n)
            in Inr \<lparr>shape = (shape t)[d := h - l],
                     elems = slice_elems d l h (shape t) (elems t)\<rparr>)
      else Inl IndexError)"

text \<open>\<^verbatim>\<open>t[:, i]\<close>: the sub-tensor at index \<open>i\<close> of axis 1, that axis removed.\<close>

definition select_axis1 :: "tensor \<Rightarrow> nat \<Rightarrow> error + tensor" where
  "select_axis1 t i =
     (case size_at t 1 of
        Inl e \<Rightarrow> Inl e
      | Inr n \<Rightarrow>
          if i < n
          then Inr \<lparr>shape = hd (shape t) # drop 2 (shape t),
                    elems = slice_elems 1 i (Suc i) (shape t) (elems t)\<rparr>
          else Inl IndexError)"

text \<open>Iterating a tensor (\<^verbatim>\<open>[w for w in t]\<close>) walks its first axis.\<close>

definition unbind0 :: "tensor \<Rightarrow> tensor list" where
  "unbind0 t =
     map (\<lambda>c. \<lparr>shape = tl (shape t), elems = c\<rparr>)
       (chunks (hd (shape t)) (numel (tl (shape t))) (elems t))"

subsection \<open>Reshaping\<close>

text \<open>\<^verbatim>\<open>t.view(s)\<close>: the same elements under another shape of the same size.\<close>

definition view :: "tensor \<Rightarrow> nat list \<Rightarrow> error + tensor" where
  "view t s = (if numel s = numel (shape t) then Inr (t\<lparr>shape := s\<rparr>) else Inl RuntimeError)"

definition flatten :: "tensor \<Rightarrow> tensor" where
  "flatten t = t\<lparr>shape := [numel (shape t)]\<rparr>"

fun unravel :: "nat list \<Rightarrow> nat \<Rightarrow> nat list" where
  "unravel [] i = []"
| "unravel (d # ds) i = (i div numel ds) # unravel ds (i mod numel ds)"

fun ravel :: "nat list \<Rightarrow> nat list \<Rightarrow> nat" where
  "ravel (d # ds) (i # is) = i * numel ds + ravel ds is"
| "ravel ds is = 0"

text \<open>
  \<^verbatim>\<open>t.permute(p)\<close>: axis \<open>k\<close> of the result is axis \<open>p ! k\<close> of \<open>t\<close>. The einops patterns
  of the source (\<^verbatim>\<open>"B T H W D -> T H W B D"\<close>, \<^verbatim>\<open>"B M D -> M B D"\<close>) are permutations of a
  tensor of the pattern's rank.
\<close>

definition permute :: "nat list \<Rightarrow> tensor \<Rightarrow> error + tensor" where
  "permute p t =
     (if length p = length (shape t) \<and> list_all (\<lambda>k. k \<in> set p) [0..<length p]
      then (let s = map (\<lambda>k. shape t ! k) p
            in Inr \<lparr>shape = s,
                     elems = map (\<lambda>j. elems t ! ravel (shape t)
                                  (map (\<lambda>a. unravel s j ! (length (takeWhile (\<lambda>k. k \<noteq> a) p)))
                                     [0..<length p]))
                               [0..<numel s]\<rparr>)
      else Inl RuntimeError)"

definition rearrange_BTHWD_to_THWBD :: "tensor \<Rightarrow> error + tensor" where
  "rearrange_BTHWD_to_THWBD t = permute [1, 2, 3, 0, 4] t"

definition rearrange_BMD_to_MBD :: "tensor \<Rightarrow> error + tensor" where
  "rearrange_BMD_to_MBD t = permute [1, 0, 2] t"

definition rearrange_BM_to_MB :: "tensor \<Rightarrow> error + tensor" where
  "rearrange_BM_to_MB t = permute [1, 0] t"

fun repeat_elems :: "nat list \<Rightarrow> nat list \<Rightarrow> real list \<Rightarrow> real list" where
  "repeat_elems (r # rs) (n # s) xs =
     concat (replicate r (concat (map (repeat_elems rs s) (chunks n (numel s) xs))))"
| "repeat_elems rs s xs = xs"

text \<open>\<^verbatim>\<open>t.repeat(*rs)\<close> for as many repeats as \<open>t\<close> has axes.\<close>

definition repeat :: "tensor \<Rightarrow> nat list \<Rightarrow> error + tensor" where
  "repeat t rs =
     (if length rs = length (shape t)
      then Inr \<lparr>shape = map (\<lambda>(r, n). r * n) (zip rs (shape t)),
                elems = repeat_elems rs (shape t) (elems t)\<rparr>
      else Inl RuntimeError)"

text \<open>\<^verbatim>\<open>t.unsqueeze(1)\<close>.\<close>

definition unsqueeze1 :: "tensor \<Rightarrow> error + tensor" where
  "unsqueeze1 t =
     (case shape t of
        [] \<Rightarrow> Inl IndexError
      | n # s \<Rightarrow> Inr (t\<lparr>shape := n # 1 # s\<rparr>))"

subsection \<open>Broadcasting arithmetic\<close>

fun broadcast_rev :: "nat list \<Rightarrow> nat list \<Rightarrow> nat list option" where
  "broadcast_rev [] ys = Some ys"
| "broadcast_rev (x # xs) [] = Some (x # xs)"
| "broadcast_rev (x # xs) (y # ys) =
     (if x = y \<or> y = 1 then map_option ((#) x) (broadcast_rev xs ys)
      else if x = 1 then map_option ((#) y) (broadcast_rev xs ys)
      else None)"

text \<open>The broadcast of two shapes: aligned at the last axis, an axis of length 1 stretches.\<close>

definition broadcast_shapes :: "nat list \<Rightarrow> nat list \<Rightarrow> nat list option" where
  "broadcast_shapes a b = map_option rev (broadcast_rev (rev a) (rev b))"

fun expand_elems :: "nat list \<Rightarrow> nat list \<Rightarrow> real list \<Rightarrow> real list" where
  "expand_elems (a # as) (t # ts) xs =
     (if a = t then concat (map (expand_elems as ts) (chunks a (numel as) xs))
      else concat (replicate t (expand_elems as ts xs)))"
| "expand_elems as ts xs = xs"

text \<open>The elements of \<open>t\<close> stretched to the broadcast shape \<open>s\<close>.\<close>

definition expand_to :: "nat list \<Rightarrow> tensor \<Rightarrow> real list" where
  "expand_to s t =
     expand_elems (replicate (length s - length (shape t)) 1 @ shape t) s (elems t)"

definition pointwise :: "(real \<Rightarrow> real \<Rightarrow> real) \<Rightarrow> tensor \<Rightarrow> tensor \<Rightarrow> error + tensor" where
  "pointwise f a b =
     (case broadcast_shapes (shape a) (shape b) of
        None \<Rightarrow> Inl RuntimeError
      | Some s \<Rightarrow>
          Inr \<lparr>shape = s,
               elems = map (\<lambda>(u, v). f u v) (zip (expand_to s a) (expand_to s b))\<rparr>)"

definition tadd :: "tensor \<Rightarrow> tensor \<Rightarrow> error + tensor" where
  "tadd a b = pointwise (+) a b"

definition tmul :: "tensor \<Rightarrow> tensor \<Rightarrow> error + tensor" where
  "tmul a b = pointwise (*) a b"

text \<open>A tensor mul_weight a Python number.\<close>

definition scale :: "tensor \<Rightarrow> real \<Rightarrow> tensor" where
  "scale t c = t\<lparr>elems := map (\<lambda>v. v * c) (elems t)\<rparr>"

text \<open>\<^verbatim>\<open>float(t)\<close> and \<^verbatim>\<open>bool(t)\<close> need a tensor of exactly one element.\<close>

definition item :: "tensor \<Rightarrow> error + real" where
  "item t = (case elems t of [v] \<Rightarrow> Inr v | _ \<Rightarrow> Inl RuntimeError)"

definition to_bool :: "tensor \<Rightarrow> tensor" where
  "to_bool t = t\<lparr>elems := map (\<lambda>v. if v = 0 then 0 else 1) (elems t)\<rparr>"

section \<open>Modules\<close>

text \<open>\<^verbatim>\<open>nn.Linear\<close>: \<open>weight\<close> has \<open>out_features\<close> rows of \<open>in_features\<close> numbers.\<close>

record linear =
  in_features :: nat
  out_features :: nat
  weight :: "real list list"
  bias :: "real list"

definition dot :: "real list \<Rightarrow> real list \<Rightarrow> real" where
  "dot w v = sum_list (map (\<lambda>(a, b). a * b) (zip w v))"

text \<open>A linear layer acts on the last axis of its input.\<close>

definition linear_apply :: "linear \<Rightarrow> tensor \<Rightarrow> error + tensor" where
  "linear_apply l t =
     (if shape t \<noteq> [] \<and> last (shape t) = in_features l
      then Inr \<lparr>shape = butlast (shape t) @ [out_features l],
                elems = concat (map (\<lambda>row. map (\<lambda>(w, b). dot w row + b) (zip (weight l) (bias l)))
                                 (chunks (numel (butlast (shape t))) (in_features l) (elems t)))\<rparr>
      else Inl RuntimeError)"

text \<open>
  Modelled from the spec: \<^verbatim>\<open>zero_module\<close> of \<^verbatim>\<open>cosmos_transfer1.diffusion.module.blocks\<close>
  is not among the sources. The spec calls its result a zero-initialized projection, one
  whose output is exactly zero at construction time: every parameter of the module (weight
  and bias) is set to zero, and the module is returned.
\<close>

definition zero_module :: "linear \<Rightarrow> linear" where
  "zero_module l = l\<lparr>weight := map (map (\<lambda>_. 0)) (weight l), bias := map (\<lambda>_. 0) (bias l)\<rparr>"

text \<open>All parameters of a linear layer are zero.\<close>

definition zero_linear :: "linear \<Rightarrow> bool" where
  "zero_linear l =
     (list_all (list_all (\<lambda>v. v = 0)) (weight l) \<and> list_all (\<lambda>v. v = 0) (bias l))"

datatype layer = Linear linear | SiLU

definition silu :: "real \<Rightarrow> real" where
  "silu v = v / (1 + exp (- v))"

fun layer_apply :: "layer \<Rightarrow> tensor \<Rightarrow> error + tensor" where
  "layer_apply (Linear l) t = linear_apply l t"
| "layer_apply SiLU t = Inr (t\<lparr>elems := map silu (elems t)\<rparr>)"

text \<open>\<^verbatim>\<open>nn.Sequential\<close>: the layers in order, the first error ends the run.\<close>

fun sequential :: "layer list \<Rightarrow> tensor \<Rightarrow> error + tensor" where
  "sequential [] t = Inr t"
| "sequential (l # ls) t =
     (case layer_apply l t of Inl e \<Rightarrow> Inl e | Inr u \<Rightarrow> sequential ls u)"

text \<open>
  A transformer block of the backbone is a collaborator: its \<^verbatim>\<open>x_format\<close> attribute and
  what it computes from the hidden state and the conditioning it is called with.
\<close>

record block_inputs =
  bi_affline_emb_B_D :: tensor
  bi_crossattn_emb :: tensor
  bi_crossattn_mask :: "tensor option"
  bi_rope_emb_L_1_1_D :: "tensor option"
  bi_adaln_lora_B_3D :: "tensor option"
  bi_extra_per_block_pos_emb :: "tensor option"

record block =
  x_format :: string
  run :: "tensor \<Rightarrow> block_inputs \<Rightarrow> error + tensor"

text \<open>
  What \<^verbatim>\<open>forward\<close> reads of an entry of \<^verbatim>\<open>self.hint_encoders\<close> (each entry is an encoder
  of its own, with its own parameters).
\<close>

record hint_encoder =
  enc_input_hint_block :: "layer list"
  enc_pos_embedder :: "tensor \<Rightarrow> tensor option \<Rightarrow> error + tensor"
  enc_x_embedder2 :: "tensor \<Rightarrow> error + tensor"
  enc_blocks :: "(string \<times> block) list"
  enc_zero_blocks :: "(string \<times> linear) list"
  enc_t_embedder :: "tensor \<Rightarrow> error + tensor \<times> tensor option"
  enc_affline_norm :: "tensor \<Rightarrow> error + tensor"
  enc_x_embedder :: "tensor \<Rightarrow> error + tensor"
  enc_extra_pos_embedder :: "(tensor \<Rightarrow> tensor option \<Rightarrow> error + tensor) option"

text \<open>
  The attributes of the parent class \<^verbatim>\<open>MultiCameraGeneralDIT\<close> that this file reads or
  assigns. The parent's code is not among the sources; its modules are functions here.
\<close>

record general_dit =
  num_blocks :: nat
  model_channels :: nat
  in_channels :: nat
  blocks :: "(string \<times> block) list"
  concat_padding_mask :: bool
  legacy_patch_emb :: bool
  pos_emb_cls :: string
  pos_embedder :: "tensor \<Rightarrow> tensor option \<Rightarrow> error + tensor"
  x_embedder :: "tensor \<Rightarrow> error + tensor"
  extra_pos_embedder :: "(tensor \<Rightarrow> tensor option \<Rightarrow> error + tensor) option"
  t_embedder :: "tensor \<Rightarrow> error + tensor \<times> tensor option"
  affline_norm :: "tensor \<Rightarrow> error + tensor"
  sequence_parallel :: bool
  use_cross_attn_mask :: bool
  additional_timestamp_channels :: bool
  block_config :: string
  cp_group :: bool
  n_views :: nat
  crossattn_emb :: "tensor option"
  crossattn_mask :: "tensor option"
  affline_scale_log_info :: "(string \<times> tensor) list"
  affline_emb :: "tensor option"

text \<open>
  \<^verbatim>\<open>GeneralDITMulticamEncoder\<close>: the parent's attributes and its own.
  \<open>hint_encoders\<close> is \<open>None\<close> when the object has no such attribute
  (\<^verbatim>\<open>hasattr(self, "hint_encoders")\<close> is false).
\<close>

record model = general_dit +
  is_extend_model :: bool
  add_augment_sigma_embedding :: bool
  dropout_ctrl_branch :: real
  random_drop_control_blocks :: bool
  layer_mask :: "bool list"
  hint_channels :: nat
  x_embedder2 :: "tensor \<Rightarrow> error + tensor"
  input_hint_block :: "layer list"
  zero_blocks :: "(string \<times> linear) list"
  hint_encoders :: "hint_encoder list option"

section \<open>Fallible computations\<close>

text \<open>A computation that raises is \<open>Inl\<close> of the error; \<open>bindE\<close> runs the rest otherwise.\<close>

definition bindE :: "error + 'a \<Rightarrow> ('a \<Rightarrow> error + 'b) \<Rightarrow> error + 'b" where
  "bindE r f = (case r of Inl e \<Rightarrow> Inl e | Inr v \<Rightarrow> f v)"

text \<open>\<^verbatim>\<open>assert c\<close>.\<close>

definition assertE :: "bool \<Rightarrow> error + unit" where
  "assertE c = (if c then Inr () else Inl AssertionError)"

text \<open>\<^verbatim>\<open>d[k]\<close> on a dict or \<^verbatim>\<open>nn.ModuleDict\<close> kept as an association list in insertion order.\<close>

definition lookup :: "(string \<times> 'a) list \<Rightarrow> string \<Rightarrow> error + 'a" where
  "lookup d k = (case map_of d k of None \<Rightarrow> Inl KeyError | Some v \<Rightarrow> Inr v)"

text \<open>\<^verbatim>\<open>xs[i]\<close> on a list, for an index that is not negative.\<close>

definition index :: "'a list \<Rightarrow> nat \<Rightarrow> error + 'a" where
  "index xs i = (if i < length xs then Inr (xs ! i) else Inl IndexError)"

text \<open>\<^verbatim>\<open>xs.index(v)\<close>: the position of the first \<open>v\<close>, ValueError when there is none.\<close>

fun list_index :: "'a list \<Rightarrow> 'a \<Rightarrow> error + nat" where
  "list_index [] v = Inl ValueError"
| "list_index (x # xs) v =
     (if x = v then Inr 0 else bindE (list_index xs v) (\<lambda>i. Inr (Suc i)))"

section \<open>Construction\<close>

text \<open>The keyword arguments \<^verbatim>\<open>__init__\<close> reads; \<open>None\<close> is an absent key.\<close>

record init_kwargs =
  kw_add_augment_sigma_embedding :: "bool option"
  kw_hint_channels :: "nat option"
  kw_dropout_ctrl_branch :: "real option"
  kw_num_control_blocks :: "int option"
  kw_num_blocks :: "int option"
  kw_layer_mask :: "bool list option"
  kw_random_drop_control_blocks :: "bool option"

text \<open>
  What construction takes from outside this file: the parent's \<^verbatim>\<open>__init__\<close> and
  \<^verbatim>\<open>init_weights\<close>, the randomly initialised \<^verbatim>\<open>nn.Linear\<close> (the \<open>k\<close>-th one created, by
  its sizes) and \<^verbatim>\<open>PatchEmbed\<close>, and \<^verbatim>\<open>nn.init.xavier_uniform_\<close> on a patch embedding.
\<close>

record construction =
  super_init :: "nat \<Rightarrow> init_kwargs \<Rightarrow> error + general_dit"
  nn_Linear :: "nat \<Rightarrow> nat \<Rightarrow> nat \<Rightarrow> linear"
  PatchEmbed :: "nat \<Rightarrow> general_dit \<Rightarrow> tensor \<Rightarrow> error + tensor"
  xavier_uniform :: "(tensor \<Rightarrow> error + tensor) \<Rightarrow> tensor \<Rightarrow> error + tensor"
  init_weights :: "model \<Rightarrow> model"

definition digit_char :: "nat \<Rightarrow> char" where
  "digit_char n = char_of (48 + n)"

function str_nat :: "nat \<Rightarrow> string" where
  "str_nat n = (if n < 10 then [digit_char n] else str_nat (n div 10) @ [digit_char (n mod 10)])"
  by pat_completeness auto
termination
  by (relation "measure id") auto

text \<open>\<^verbatim>\<open>f"block{idx}"\<close>.\<close>

definition block_name :: "nat \<Rightarrow> string" where
  "block_name idx = ''block'' @ str_nat idx"

definition hint_nf :: "nat list" where
  "hint_nf = [16, 16, 32, 32, 96, 96, 256]"

text \<open>Lines 72 to 75: the cascade without its final layer.\<close>

definition build_input_hint_block :: "construction \<Rightarrow> nat \<Rightarrow> layer list" where
  "build_input_hint_block c mc =
     [Linear (nn_Linear c 0 mc (hint_nf ! 0)), SiLU]
     @ concat (map (\<lambda>i. [Linear (nn_Linear c (Suc i) (hint_nf ! i) (hint_nf ! Suc i)), SiLU])
                 [0..<length hint_nf - 1])"

text \<open>Lines 78 to 82: one zeroed projection for each block that the mask does not skip.\<close>

fun build_zero_blocks ::
  "construction \<Rightarrow> nat \<Rightarrow> bool list \<Rightarrow> nat list \<Rightarrow> error + (string \<times> linear) list" where
  "build_zero_blocks c mc lm [] = Inr []"
| "build_zero_blocks c mc lm (idx # rest) =
     bindE (index lm idx) (\<lambda>skip.
       if skip then build_zero_blocks c mc lm rest
       else bindE (build_zero_blocks c mc lm rest) (\<lambda>zs.
              Inr ((block_name idx, zero_module (nn_Linear c (8 + idx) mc mc)) # zs)))"

text \<open>Lines 57 to 60: the layer mask from \<^verbatim>\<open>num_control_blocks\<close>.\<close>

definition mask_kwargs :: "init_kwargs \<Rightarrow> error + init_kwargs" where
  "mask_kwargs kw =
     (case kw_num_control_blocks kw of
        None \<Rightarrow> Inr kw
      | Some n \<Rightarrow>
          if \<not> 0 < n then Inl AssertionError
          else (case kw_num_blocks kw of
                  None \<Rightarrow> Inl KeyError
                | Some nb \<Rightarrow>
                    if n \<le> nb
                    then Inr (kw\<lparr>kw_layer_mask :=
                                 Some (replicate (nat n) False @ replicate (nat (nb - n)) True)\<rparr>)
                    else Inl AssertionError))"

text \<open>\<^verbatim>\<open>build_hint_patch_embed\<close>.\<close>

definition build_hint_patch_embed ::
  "construction \<Rightarrow> general_dit \<Rightarrow> nat \<Rightarrow> tensor \<Rightarrow> error + tensor" where
  "build_hint_patch_embed c base hc =
     (let inc = (if concat_padding_mask base then hc + 1 else hc);
          pe = PatchEmbed c inc base
      in if legacy_patch_emb base then xavier_uniform c pe else pe)"

text \<open>
  \<^verbatim>\<open>self.init_weights()\<close> of the parent assigns parameters of the modules the object
  holds at that moment; its other attributes stay.
\<close>

definition run_init_weights :: "construction \<Rightarrow> model \<Rightarrow> model" where
  "run_init_weights c m =
     (let w = init_weights c m
      in m\<lparr>blocks := blocks w,
           pos_embedder := pos_embedder w,
           x_embedder := x_embedder w,
           extra_pos_embedder := extra_pos_embedder w,
           t_embedder := t_embedder w,
           affline_norm := affline_norm w,
           x_embedder2 := x_embedder2 w,
           input_hint_block := input_hint_block w\<rparr>)"

text \<open>
  Lines 44 to 75: the object when \<^verbatim>\<open>init_weights\<close> is called. \<open>kw\<close> are the keyword
  arguments as given, \<open>kw1\<close> those with the layer mask of line 60; the zero blocks do not
  exist yet and there is no attribute \<^verbatim>\<open>hint_encoders\<close>.
\<close>

definition encoder_before_weights ::
  "construction \<Rightarrow> general_dit \<Rightarrow> bool \<Rightarrow> init_kwargs \<Rightarrow> init_kwargs \<Rightarrow> model" where
  "encoder_before_weights c base is_extend kw kw1 =
     general_dit.extend base
       \<lparr>is_extend_model = is_extend,
        add_augment_sigma_embedding =
          (case kw_add_augment_sigma_embedding kw of None \<Rightarrow> False | Some b \<Rightarrow> b),
        dropout_ctrl_branch = (case kw_dropout_ctrl_branch kw of None \<Rightarrow> 1 / 2 | Some p \<Rightarrow> p),
        random_drop_control_blocks =
          (case kw_random_drop_control_blocks kw1 of None \<Rightarrow> False | Some b \<Rightarrow> b),
        layer_mask = (case kw_layer_mask kw1 of
                        None \<Rightarrow> replicate (num_blocks base) False
                      | Some l \<Rightarrow> l),
        hint_channels = (case kw_hint_channels kw of None \<Rightarrow> 16 | Some h \<Rightarrow> h),
        x_embedder2 = build_hint_patch_embed c base
                        (case kw_hint_channels kw of None \<Rightarrow> 16 | Some h \<Rightarrow> h),
        input_hint_block = build_input_hint_block c (model_channels base),
        zero_blocks = [],
        hint_encoders = None\<rparr>"

text \<open>The keyword arguments the parent receives: without the keys popped before line 62.\<close>

definition parent_kwargs :: "init_kwargs \<Rightarrow> init_kwargs" where
  "parent_kwargs kw1 =
     kw1\<lparr>kw_add_augment_sigma_embedding := None, kw_hint_channels := None,
         kw_dropout_ctrl_branch := None, kw_num_control_blocks := None,
         kw_random_drop_control_blocks := None\<rparr>"

text \<open>
  \<^verbatim>\<open>GeneralDITMulticamEncoder.__init__\<close>. \<^verbatim>\<open>init_weights\<close> runs before the zero blocks
  and the final layer of the cascade exist.
\<close>

definition init :: "construction \<Rightarrow> nat \<Rightarrow> bool \<Rightarrow> init_kwargs \<Rightarrow> error + model" where
  "init c inc is_extend kw =
     bindE (mask_kwargs kw) (\<lambda>kw1.
     bindE (super_init c (if is_extend then inc + 1 else inc) (parent_kwargs kw1)) (\<lambda>base.
       let m0 = encoder_before_weights c base is_extend kw kw1;
           m1 = run_init_weights c m0
       in bindE (build_zero_blocks c (model_channels base) (layer_mask m0)
                   [0..<num_blocks base]) (\<lambda>zbs.
            Inr (m1\<lparr>zero_blocks := zbs,
                    input_hint_block := input_hint_block m1
                      @ [Linear (zero_module
                           (nn_Linear c (8 + num_blocks base) (last hint_nf)
                              (model_channels base)))]\<rparr>))))"

section \<open>The environment of a forward call\<close>

text \<open>
  Modelled from the spec: the enumeration \<^verbatim>\<open>DataType\<close> of
  \<^verbatim>\<open>cosmos_transfer1.diffusion.conditioner\<close> is not among the sources. The spec names the
  VIDEO datatype, the IMAGE datatype and "any other datatype".
\<close>

datatype data_type = IMAGE | VIDEO | OTHER

text \<open>A value of the keyword-argument bag: \<^verbatim>\<open>None\<close> or a tensor.\<close>

datatype pyval = PyNone | PyTensor tensor

text \<open>\<^verbatim>\<open>control_weight\<close>, and an entry of the per-source list made of it.\<close>

datatype weight = W_None | W_Num real | W_Tensor tensor

text \<open>What the backbone's \<^verbatim>\<open>forward\<close> is called with.\<close>

record backbone_call =
  bc_x :: tensor
  bc_timesteps :: tensor
  bc_crossattn_emb :: tensor
  bc_crossattn_mask :: "tensor option"
  bc_fps :: "tensor option"
  bc_image_size :: "tensor option"
  bc_padding_mask :: "tensor option"
  bc_scalar_feature :: "tensor option"
  bc_data_type :: "data_type option"
  bc_x_ctrl :: "(string \<times> tensor) list option"
  bc_condition_video_input_mask :: "tensor option"
  bc_latent_condition :: "tensor option"
  bc_latent_condition_sigma :: "tensor option"
  bc_view_indices_B_T :: "tensor option"
  bc_kwargs :: "string \<rightharpoonup> pyval"

text \<open>
  \<^verbatim>\<open>base_model\<close>: its \<^verbatim>\<open>net.forward\<close> and the \<^verbatim>\<open>requires_grad\<close> flags of its
  parameters.
\<close>

record base_model =
  net_forward :: "backbone_call \<Rightarrow> error + tensor"
  parameters_requires_grad :: "bool list"

text \<open>The arguments of \<^verbatim>\<open>forward\<close>.\<close>

record call =
  a_x :: tensor
  a_timesteps :: tensor
  a_crossattn_emb :: tensor
  a_crossattn_mask :: "tensor option"
  a_fps :: "tensor option"
  a_image_size :: "tensor option"
  a_padding_mask :: "tensor option"
  a_scalar_feature :: "tensor option"
  a_data_type :: "data_type option"
  a_hint_key :: "string option"
  a_base_model :: "base_model option"
  a_control_weight :: weight
  a_num_layers_to_use :: int
  a_condition_video_input_mask :: "tensor option"
  a_latent_condition :: "tensor option"
  a_latent_condition_sigma :: "tensor option"
  a_view_indices_B_T :: "tensor option"
  a_kwargs :: "string \<rightharpoonup> pyval"

text \<open>What \<^verbatim>\<open>prepare_embedded_sequence\<close> of the parent is called with, after \<open>x\<close>.\<close>

record sequence_inputs =
  si_fps :: "tensor option"
  si_padding_mask :: "tensor option"
  si_latent_condition :: "tensor option"
  si_latent_condition_sigma :: "tensor option"
  si_frame_repeat :: "pyval option"
  si_view_indices_B_T :: "tensor option"

text \<open>
  The collaborators of a forward call that are no attribute of the object: the autograd
  switch, the random generators of torch and numpy (the \<open>k\<close>-th number each one yields), the
  parent's methods (which read the object), the tensor-parallel group, and the library's
  interpolation and resizing.
\<close>

record env =
  is_grad_enabled :: bool
  torch_rand :: "nat \<Rightarrow> real"
  np_random :: "nat \<Rightarrow> nat"
  prepare_embedded_sequence ::
    "model \<Rightarrow> tensor \<Rightarrow> sequence_inputs \<Rightarrow> error + tensor \<times> tensor option \<times> tensor option"
  prepare_additional_timestamp_embedder ::
    "model \<Rightarrow> nat \<Rightarrow> tensor option \<Rightarrow> tensor \<Rightarrow> error + tensor"
  scatter_along_first_dim :: "tensor \<Rightarrow> error + tensor"
  tensor_model_parallel_world_size :: nat
  split_inputs_cp :: "tensor \<Rightarrow> error + tensor"
  resize_nearest :: "tensor \<Rightarrow> nat list \<Rightarrow> error + tensor"
  trilinear :: "tensor \<Rightarrow> nat list \<Rightarrow> real list"

text \<open>
  The state a call can change: the object, and how many numbers the generators of torch
  and numpy have yielded so far.
\<close>

record state =
  self :: model
  torch_draws :: nat
  np_draws :: nat

type_synonym 'a prog = "state \<Rightarrow> (error + 'a) \<times> state"

definition ret :: "'a \<Rightarrow> 'a prog" where
  "ret v = (\<lambda>s. (Inr v, s))"

definition lift :: "error + 'a \<Rightarrow> 'a prog" where
  "lift r = (\<lambda>s. (r, s))"

text \<open>An exception leaves the assignments made before it in place.\<close>

definition bind :: "'a prog \<Rightarrow> ('a \<Rightarrow> 'b prog) \<Rightarrow> 'b prog" where
  "bind p f = (\<lambda>s. case p s of (Inl e, s') \<Rightarrow> (Inl e, s') | (Inr v, s') \<Rightarrow> f v s')"

definition get_self :: "model prog" where
  "get_self = (\<lambda>s. (Inr (self s), s))"

definition modify_self :: "(model \<Rightarrow> model) \<Rightarrow> unit prog" where
  "modify_self f = (\<lambda>s. (Inr (), s\<lparr>self := f (self s)\<rparr>))"

section \<open>Hint encoding\<close>

definition lower_char :: "char \<Rightarrow> char" where
  "lower_char c =
     (if 65 \<le> (of_char c :: nat) \<and> (of_char c :: nat) \<le> 90
      then char_of ((of_char c :: nat) + 32) else c)"

text \<open>\<^verbatim>\<open>sub in s\<close> on strings.\<close>

fun contains :: "string \<Rightarrow> string \<Rightarrow> bool" where
  "contains sub [] = (sub = [])"
| "contains sub (c # cs) = (take (length sub) (c # cs) = sub \<or> contains sub cs)"

text \<open>\<^verbatim>\<open>self.blocks["block0"].x_format\<close>.\<close>

definition block0_format :: "(string \<times> block) list \<Rightarrow> error + string" where
  "block0_format bs = bindE (lookup bs ''block0'') (\<lambda>b. Inr (x_format b))"

text \<open>
  \<^verbatim>\<open>t.repeat(*rs)\<close> as line 122 uses it, on a mask that \<^verbatim>\<open>unsqueeze(1)\<close> gave five axes
  or fewer: missing leading axes count as length 1.
\<close>

definition repeat5 :: "tensor \<Rightarrow> nat list \<Rightarrow> error + tensor" where
  "repeat5 t rs =
     (if length (shape t) \<le> length rs
      then repeat (t\<lparr>shape := replicate (length rs - length (shape t)) 1 @ shape t\<rparr>) rs
      else Inl RuntimeError)"

text \<open>
  \<^verbatim>\<open>prepare_hint_embedded_sequence\<close>. A missing padding mask cannot be resized (TypeError).
\<close>

definition prepare_hint_embedded_sequence ::
  "env \<Rightarrow> model \<Rightarrow> tensor \<Rightarrow> tensor option \<Rightarrow> tensor option \<Rightarrow> error + tensor \<times> tensor option" where
  "prepare_hint_embedded_sequence E m x_B_C_T_H_W fps padding_mask =
     bindE (if concat_padding_mask m
            then (case padding_mask of
                    None \<Rightarrow> Inl TypeError
                  | Some pm \<Rightarrow>
                      bindE (resize_nearest E pm
                               (drop (length (shape x_B_C_T_H_W) - 2) (shape x_B_C_T_H_W))) (\<lambda>pm1.
                      bindE (unsqueeze1 pm1) (\<lambda>pm2.
                      bindE (size_at x_B_C_T_H_W 0) (\<lambda>b.
                      bindE (size_at x_B_C_T_H_W 2) (\<lambda>t.
                      bindE (repeat5 pm2 [b, 1, t, 1, 1]) (\<lambda>pm3.
                        torch_cat [x_B_C_T_H_W, pm3] 1))))))
            else Inr x_B_C_T_H_W) (\<lambda>x1.
     bindE (x_embedder2 m x1) (\<lambda>x_B_T_H_W_D.
       if contains ''rope'' (map lower_char (pos_emb_cls m))
       then bindE (pos_embedder m x_B_T_H_W_D fps) (\<lambda>pe. Inr (x_B_T_H_W_D, Some pe))
       else bindE (if contains ''fps_aware'' (pos_emb_cls m)
                   then pos_embedder m x_B_T_H_W_D fps
                   else pos_embedder m x_B_T_H_W_D None) (\<lambda>pe.
            bindE (tadd x_B_T_H_W_D pe) (\<lambda>x2. Inr (x2, None)))))"

text \<open>Lines 145 to 148: the channel axis filled with zeros up to \<^verbatim>\<open>hint_channels\<close>.\<close>

definition pad_hint :: "nat \<Rightarrow> tensor \<Rightarrow> error + tensor" where
  "pad_hint hc hint =
     bindE (size_at hint 1) (\<lambda>c.
       if c < hc then torch_cat [hint, zeros ((shape hint)[1 := hc - c])] 1
       else Inr hint)"

text \<open>
  Lines 157 to 161: the hint tokens in one leading axis, handed to the tensor-parallel
  group. \<^verbatim>\<open>view\<close> cannot infer the last axis when the others hold no element.
\<close>

definition scatter_tokens :: "env \<Rightarrow> tensor \<Rightarrow> error + tensor" where
  "scatter_tokens E t =
     (case shape t of
        [T, H, W, B, D] \<Rightarrow>
          if T * H * W * B = 0 then Inl RuntimeError
          else bindE (view t [T * H * W, 1, 1, B, D]) (scatter_along_first_dim E)
      | _ \<Rightarrow> Inl ValueError)"

text \<open>
  \<^verbatim>\<open>encode_hint\<close>. The message of the last branch reads \<^verbatim>\<open>self.blocks[0]\<close>, and a
  \<^verbatim>\<open>ModuleDict\<close> has no key \<open>0\<close>: the error raised there is KeyError.
\<close>

definition encode_hint ::
  "env \<Rightarrow> model \<Rightarrow> tensor \<Rightarrow> tensor option \<Rightarrow> tensor option \<Rightarrow> data_type option \<Rightarrow> error + tensor" where
  "encode_hint E m hint fps padding_mask data_type =
     bindE (size_at hint 1) (\<lambda>c.
     bindE (assertE (c \<le> hint_channels m)) (\<lambda>_.
     bindE (pad_hint (hint_channels m) hint) (\<lambda>hint1.
     bindE (assertE (data_type \<noteq> None)) (\<lambda>_.
     bindE (prepare_hint_embedded_sequence E m hint1 fps padding_mask) (\<lambda>(hint_B_T_H_W_D, _).
     bindE (block0_format (blocks m)) (\<lambda>fmt.
     bindE (if fmt = ''THWBD''
            then bindE (rearrange_BTHWD_to_THWBD hint_B_T_H_W_D) (\<lambda>h.
                   if sequence_parallel m then scatter_tokens E h else Inr h)
            else if fmt = ''BTHWD'' then Inr hint_B_T_H_W_D
            else Inl KeyError) (\<lambda>hint2.
       sequential (input_hint_block m) hint2)))))))"

section \<open>The forward pass\<close>

subsection \<open>Lines 205 to 236: the hint and its encoding\<close>

text \<open>\<^verbatim>\<open>kwargs.pop(hint_key)\<close>: no default, so a key that is not there is a KeyError.\<close>

definition pop_hint :: "string option \<Rightarrow> (string \<rightharpoonup> pyval) \<Rightarrow> error + pyval \<times> (string \<rightharpoonup> pyval)" where
  "pop_hint hint_key kwargs =
     (case hint_key of
        None \<Rightarrow> Inl KeyError
      | Some k \<Rightarrow>
          (case kwargs k of
             None \<Rightarrow> Inl KeyError
           | Some v \<Rightarrow> Inr (v, kwargs(k := None))))"

text \<open>
  The call of \<^verbatim>\<open>base_model.net.forward\<close> at lines 208 and 461: the arguments as
  \<^verbatim>\<open>forward\<close> received them, the keyword bag after the pop, and \<^verbatim>\<open>x_ctrl\<close> when given.
\<close>

definition backbone_args ::
  "call \<Rightarrow> (string \<rightharpoonup> pyval) \<Rightarrow> (string \<times> tensor) list option \<Rightarrow> backbone_call" where
  "backbone_args a kwargs x_ctrl =
     \<lparr>bc_x = a_x a,
      bc_timesteps = a_timesteps a,
      bc_crossattn_emb = a_crossattn_emb a,
      bc_crossattn_mask = a_crossattn_mask a,
      bc_fps = a_fps a,
      bc_image_size = a_image_size a,
      bc_padding_mask = a_padding_mask a,
      bc_scalar_feature = a_scalar_feature a,
      bc_data_type = a_data_type a,
      bc_x_ctrl = x_ctrl,
      bc_condition_video_input_mask = a_condition_video_input_mask a,
      bc_latent_condition = a_latent_condition a,
      bc_latent_condition_sigma = a_latent_condition_sigma a,
      bc_view_indices_B_T = a_view_indices_B_T a,
      bc_kwargs = kwargs\<rparr>"

definition call_backbone ::
  "call \<Rightarrow> (string \<rightharpoonup> pyval) \<Rightarrow> (string \<times> tensor) list option \<Rightarrow> error + tensor" where
  "call_backbone a kwargs x_ctrl =
     (case a_base_model a of
        None \<Rightarrow> Inl AttributeError
      | Some bm \<Rightarrow> net_forward bm (backbone_args a kwargs x_ctrl))"

text \<open>Lines 228 to 230: the object's own modules are replaced by those of encoder \<open>i\<close>.\<close>

definition select_hint_encoder :: "nat \<Rightarrow> unit prog" where
  "select_hint_encoder i =
     bind get_self (\<lambda>m.
       case hint_encoders m of
         None \<Rightarrow> lift (Inl AttributeError)
       | Some encs \<Rightarrow>
           bind (lift (index encs i)) (\<lambda>enc.
             modify_self (\<lambda>m. m\<lparr>input_hint_block := enc_input_hint_block enc,
                                 pos_embedder := enc_pos_embedder enc,
                                 x_embedder2 := enc_x_embedder2 enc\<rparr>)))"

fun encode_hints_loop :: "env \<Rightarrow> call \<Rightarrow> tensor \<Rightarrow> nat list \<Rightarrow> tensor list prog" where
  "encode_hints_loop E a hint [] = ret []"
| "encode_hints_loop E a hint (i # rest) =
     bind (select_hint_encoder i) (\<lambda>_.
     bind get_self (\<lambda>m.
     bind (lift (bindE (select_axis1 hint i) (\<lambda>h.
             encode_hint E m h (a_fps a) (a_padding_mask a) (a_data_type a)))) (\<lambda>g.
     bind (encode_hints_loop E a hint rest) (\<lambda>gs. ret (g # gs)))))"

text \<open>\<^verbatim>\<open>torch.chunk(t, n, dim=d)\<close>.\<close>

definition torch_chunk :: "tensor \<Rightarrow> nat \<Rightarrow> nat \<Rightarrow> error + tensor list" where
  "torch_chunk t n d =
     (if n = 0 then Inl RuntimeError
      else bindE (size_at t d) (\<lambda>sz.
        let split_size = (sz + n - 1) div n
        in if split_size = 0
           then Inr (replicate n (t\<lparr>elems := []\<rparr>))
           else Inr (map (\<lambda>j. \<lparr>shape = (shape t)[d := min (Suc j * split_size) sz - j * split_size],
                                elems = slice_elems d (j * split_size) (min (Suc j * split_size) sz)
                                          (shape t) (elems t)\<rparr>)
                       [0..<max ((sz + split_size - 1) div split_size) 1])))"

text \<open>
  Lines 225 to 236. With \<^verbatim>\<open>hint_encoders\<close> the sources are the entries of axis 1 of the
  hint; without, they are the chunks of the encoded hint along axis 3, and only there
  does line 236 assert that several sources need autograd to be off.
\<close>

definition encode_hints :: "env \<Rightarrow> call \<Rightarrow> tensor \<Rightarrow> tensor list prog" where
  "encode_hints E a hint =
     bind get_self (\<lambda>m.
       case hint_encoders m of
         Some _ \<Rightarrow>
           bind (lift (size_at hint 1)) (\<lambda>n. encode_hints_loop E a hint [0..<n])
       | None \<Rightarrow>
           bind (lift (encode_hint E m hint (a_fps a) (a_padding_mask a) (a_data_type a))) (\<lambda>g.
           bind (lift (bindE (size_at hint 0) (\<lambda>hb.
                       bindE (size_at (a_x a) 0) (\<lambda>xb.
                         if xb = 0 then Inl ZeroDivisionError
                         else torch_chunk g (hb div xb) 3)))) (\<lambda>gs.
           bind (lift (assertE (length gs = 1 \<or> \<not> is_grad_enabled E))) (\<lambda>_.
             ret gs))))"

subsection \<open>Lines 242 to 280: channels and cross attention\<close>

definition unpack5 :: "nat list \<Rightarrow> error + nat \<times> nat \<times> nat \<times> nat \<times> nat" where
  "unpack5 s = (case s of [B, C, T, H, W] \<Rightarrow> Inr (B, C, T, H, W) | _ \<Rightarrow> Inl ValueError)"

text \<open>
  Lines 246 to 254: the mask split over the context-parallel group, view by view. The
  two einops patterns regroup the time axis by \<^verbatim>\<open>n_views\<close>.
\<close>

definition split_views :: "env \<Rightarrow> model \<Rightarrow> tensor \<Rightarrow> error + tensor" where
  "split_views E m cm =
     (case shape cm of
        [B, C, VT, H, W] \<Rightarrow>
          if n_views m = 0 \<or> VT mod n_views m \<noteq> 0 then Inl RuntimeError
          else bindE (split_inputs_cp E (cm\<lparr>shape := [B, C, n_views m, VT div n_views m, H, W]\<rparr>))
                 (\<lambda>c1. case shape c1 of
                          [B1, C1, V1, T1, H1, W1] \<Rightarrow>
                            if V1 = n_views m then Inr (c1\<lparr>shape := [B1, C1, V1 * T1, H1, W1]\<rparr>)
                            else Inl RuntimeError
                        | _ \<Rightarrow> Inl RuntimeError)
      | _ \<Rightarrow> Inl RuntimeError)"

definition reconcile_channels ::
  "env \<Rightarrow> model \<Rightarrow> call \<Rightarrow> nat \<times> nat \<times> nat \<times> nat \<times> nat \<Rightarrow> error + tensor" where
  "reconcile_channels E m a dims =
     (case dims of (B, C, T, H, W) \<Rightarrow>
        if a_data_type a = Some VIDEO
        then (case a_condition_video_input_mask a of
                None \<Rightarrow> Inr (a_x a)
              | Some cm \<Rightarrow>
                  bindE (if cp_group m then split_views E m cm else Inr cm) (\<lambda>cm1.
                    torch_cat [a_x a, cm1] 1))
        else if a_data_type a = Some IMAGE
        then (if in_channels m < C then Inl RuntimeError
              else torch_cat [a_x a, zeros [B, in_channels m - C, T, H, W]] 1)
        else bindE (assertE (C = in_channels m)) (\<lambda>_. Inr (a_x a)))"

text \<open>\<^verbatim>\<open>mask[:, None, None, :]\<close>.\<close>

definition mask_index :: "tensor \<Rightarrow> error + tensor" where
  "mask_index t =
     (case shape t of
        n # k # rest \<Rightarrow> Inr (t\<lparr>shape := n # 1 # 1 # k # rest\<rparr>)
      | _ \<Rightarrow> Inl IndexError)"

text \<open>
  Lines 272 to 280. Line 279 takes the truth value of the mask tensor, which torch
  gives for a tensor of one element only.
\<close>

definition cross_attention_inputs :: "model \<Rightarrow> call \<Rightarrow> error + tensor \<times> tensor option" where
  "cross_attention_inputs m a =
     bindE (if use_cross_attn_mask m
            then (case a_crossattn_mask a of
                    None \<Rightarrow> Inl TypeError
                  | Some cm \<Rightarrow> bindE (mask_index cm) (\<lambda>c. Inr (Some (to_bool c))))
            else Inr None) (\<lambda>cmask.
     bindE (block0_format (blocks m)) (\<lambda>fmt.
       if fmt = ''THWBD''
       then bindE (rearrange_BMD_to_MBD (a_crossattn_emb a)) (\<lambda>cemb.
            bindE (case cmask of
                     None \<Rightarrow> Inr None
                   | Some c \<Rightarrow>
                       bindE (item c) (\<lambda>v.
                         if v \<noteq> 0 then bindE (rearrange_BM_to_MB c) (\<lambda>c1. Inr (Some c1))
                         else Inr (Some c))) (\<lambda>cmask1.
              Inr (cemb, cmask1)))
       else Inr (a_crossattn_emb a, cmask)))"

subsection \<open>Lines 284 to 317: the gates and the weights\<close>

text \<open>\<^verbatim>\<open>torch.rand(B)\<close>: the next \<open>B\<close> numbers of torch's generator.\<close>

definition torch_rand_draw :: "env \<Rightarrow> nat \<Rightarrow> real list prog" where
  "torch_rand_draw E B =
     (\<lambda>s. (Inr (map (torch_rand E) [torch_draws s..<torch_draws s + B]),
           s\<lparr>torch_draws := torch_draws s + B\<rparr>))"

text \<open>\<^verbatim>\<open>np.random.randint(n)\<close>: a number below \<open>n\<close>, from numpy's generator.\<close>

definition np_randint :: "env \<Rightarrow> nat \<Rightarrow> nat prog" where
  "np_randint E n =
     (if n = 0 then lift (Inl ValueError)
      else (\<lambda>s. (Inr (np_random E (np_draws s) mod n), s\<lparr>np_draws := Suc (np_draws s)\<rparr>)))"

text \<open>
  Lines 286 to 295, the branch-dropout gate \<^verbatim>\<open>coin_flip\<close>: the number \<open>1\<close>, or one
  \<open>0\<close>/\<open>1\<close> entry for each batch element, laid out on the batch axis of the block format.
\<close>

definition coin_flip :: "env \<Rightarrow> call \<Rightarrow> nat \<Rightarrow> weight prog" where
  "coin_flip E a B =
     (case a_base_model a of
        None \<Rightarrow> lift (Inl AttributeError)
      | Some bm \<Rightarrow>
          if is_grad_enabled E \<and> list_ex (\<lambda>g. g) (parameters_requires_grad bm)
          then bind (torch_rand_draw E B) (\<lambda>rs.
               bind get_self (\<lambda>m.
                 let flips = map (\<lambda>r. if r > dropout_ctrl_branch m then 1 else 0) rs
                 in bind (lift (block0_format (blocks m))) (\<lambda>fmt.
                      ret (W_Tensor \<lparr>shape = (if fmt = ''THWBD'' then [1, 1, 1, B, 1]
                                              else if fmt = ''BTHWD'' then [B, 1, 1, 1, 1]
                                              else [B]),
                                     elems = flips\<rparr>))))
          else ret (W_Num 1))"

text \<open>Lines 297 to 307: \<^verbatim>\<open>control_gate_per_layer\<close>.\<close>

definition control_gates :: "env \<Rightarrow> call \<Rightarrow> bool list prog" where
  "control_gates E a =
     bind get_self (\<lambda>m.
     bind (lift (list_index (layer_mask m) True)) (\<lambda>num_control_blocks.
     bind (if random_drop_control_blocks m
           then (if is_grad_enabled E
                 then bind (np_randint E num_control_blocks) (\<lambda>r. ret (int r + 1))
                 else if a_num_layers_to_use a = - 1 then ret (int num_control_blocks)
                 else ret (a_num_layers_to_use a))
           else ret (int num_control_blocks)) (\<lambda>num_layers_to_use.
       ret (map (\<lambda>i. int i < num_layers_to_use) [0..<num_control_blocks]))))"

text \<open>Lines 309 to 317: one weight for each source.\<close>

definition control_weights :: "weight \<Rightarrow> nat \<Rightarrow> error + weight list" where
  "control_weights cw n =
     (case cw of
        W_Tensor t \<Rightarrow>
          if ndim t = 0 then bindE (item t) (\<lambda>v. Inr (replicate n (W_Num v)))
          else if ndim t = 1 then Inr (map W_Num (elems t))
          else Inr (map W_Tensor (unbind0 t))
      | _ \<Rightarrow> Inr (replicate n cw))"

subsection \<open>Lines 418 to 450: the spatio-temporal weight map\<close>

text \<open>
  \<^verbatim>\<open>torch.nn.functional.interpolate(t, size=size, mode="trilinear")\<close>: defined on five
  axes, none of them empty; batch and channel axes stay, the other three become \<open>sz\<close>.
  The interpolated numbers are the library's.
\<close>

definition interpolate :: "env \<Rightarrow> tensor \<Rightarrow> nat list \<Rightarrow> error + tensor" where
  "interpolate E t sz =
     (if length (shape t) \<noteq> 5 then Inl NotImplementedError
      else if 0 \<in> set (drop 2 (shape t)) \<or> 0 \<in> set sz then Inl RuntimeError
      else Inr \<lparr>shape = take 2 (shape t) @ sz, elems = trilinear E t sz\<rparr>)"

text \<open>\<^verbatim>\<open>range(1, n, 8)\<close>.\<close>

definition range_from1_step8 :: "nat \<Rightarrow> nat list" where
  "range_from1_step8 n = map (\<lambda>k. 1 + 8 * k) [0..<(n + 6) div 8]"

text \<open>Lines 435 to 443: one interpolated frame for each window of eight input frames.\<close>

fun resample_windows :: "env \<Rightarrow> nat \<Rightarrow> nat \<Rightarrow> tensor \<Rightarrow> nat list \<Rightarrow> error + tensor list" where
  "resample_windows E H W weight_map [] = Inr []"
| "resample_windows E H W weight_map (wi # rest) =
     bindE (slice_axis 2 wi (wi + 8) weight_map) (\<lambda>window.
     bindE (interpolate E window [1, H, W]) (\<lambda>frame.
     bindE (resample_windows E H W weight_map rest) (\<lambda>frames. Inr (frame # frames))))"

text \<open>
  Lines 425 to 444. The slice of line 429 indexes five axes, so the map needs as many.
\<close>

definition resample_weight_map :: "env \<Rightarrow> nat \<Rightarrow> nat \<Rightarrow> nat \<Rightarrow> tensor \<Rightarrow> error + tensor" where
  "resample_weight_map E T H W weight_map =
     (if take 3 (drop 2 (shape weight_map)) \<noteq> [T, H, W]
      then bindE (size_at weight_map 2) (\<lambda>Tw.
           bindE (assertE (int Tw = 8 * (int T - 1) + 1)) (\<lambda>_.
           bindE (if length (shape weight_map) < 5 then Inl IndexError
                  else slice_axis 2 0 1 weight_map) (\<lambda>leading.
           bindE (interpolate E leading [1, H, W]) (\<lambda>first.
           bindE (resample_windows E H W weight_map (range_from1_step8 Tw)) (\<lambda>others.
             torch_cat (first # others) 2)))))
      else Inr weight_map)"

text \<open>Lines 423 to 450: the map of one source in the token layout of the hidden state.\<close>

definition weight_map_tokens ::
  "env \<Rightarrow> model \<Rightarrow> nat \<times> nat \<times> nat \<times> nat \<Rightarrow> tensor \<Rightarrow> error + tensor" where
  "weight_map_tokens E m dims weight_map =
     (case dims of (T, H, W, B) \<Rightarrow>
        bindE (resample_weight_map E T H W weight_map) (\<lambda>wm1.
        bindE (permute [2, 3, 4, 0, 1] wm1) (\<lambda>wm2.
        bindE (view wm2 [T * H * W, 1, 1, B, 1]) (\<lambda>wm3.
          if sequence_parallel m then scatter_along_first_dim E wm3 else Inr wm3))))"

subsection \<open>Lines 398 to 459: the control blocks of one source\<close>

text \<open>A tensor mul_weight a weight or a gate of the source: a Python number or a tensor.\<close>

definition mul_weight :: "tensor \<Rightarrow> weight \<Rightarrow> error + tensor" where
  "mul_weight t w =
     (case w of
        W_None \<Rightarrow> Inl TypeError
      | W_Num c \<Rightarrow> Inr (scale t c)
      | W_Tensor u \<Rightarrow> tmul t u)"

text \<open>\<^verbatim>\<open>isinstance(w, (float, int)) or w.ndim < 2\<close>.\<close>

definition is_scalar_weight :: "weight \<Rightarrow> error + bool" where
  "is_scalar_weight w =
     (case w of
        W_None \<Rightarrow> Inl AttributeError
      | W_Num c \<Rightarrow> Inr True
      | W_Tensor u \<Rightarrow> Inr (ndim u < 2))"

text \<open>What the per-source loop reads and does not change.\<close>

record ctrl_ctx =
  cx_x_before_blocks :: tensor
  cx_crossattn_emb :: tensor
  cx_crossattn_mask :: "tensor option"
  cx_coin_flip :: weight
  cx_gates :: "bool list"
  cx_control_weight :: "weight list"

text \<open>
  Lines 415 to 454: \<^verbatim>\<open>hint_val\<close> of block \<open>idx\<close> (named \<open>name\<close>) of source \<open>i\<close>, from the
  hidden state \<open>x\<close> after that block.
\<close>

definition hint_val ::
  "env \<Rightarrow> model \<Rightarrow> ctrl_ctx \<Rightarrow> (string \<times> linear) list \<Rightarrow> nat \<times> nat \<times> nat \<times> nat
     \<Rightarrow> nat \<Rightarrow> nat \<Rightarrow> string \<Rightarrow> tensor \<Rightarrow> error + tensor" where
  "hint_val E m cx zbs dims i idx name x =
     bindE (index (cx_gates cx) idx) (\<lambda>gate.
     bindE (index (cx_control_weight cx) i) (\<lambda>cw.
     bindE (is_scalar_weight cw) (\<lambda>scalar.
     bindE (lookup zbs name) (\<lambda>zero_block.
       if scalar
       then bindE (linear_apply zero_block x) (\<lambda>v0.
            bindE (mul_weight v0 cw) (\<lambda>v1.
            bindE (mul_weight v1 (cx_coin_flip cx)) (\<lambda>v2.
              Inr (scale v2 (if gate then 1 else 0)))))
       else bindE (linear_apply zero_block x) (\<lambda>control_feat.
            bindE (block0_format (blocks m)) (\<lambda>fmt.
              if fmt = ''THWBD''
              then bindE (case cw of W_Tensor wm \<Rightarrow> weight_map_tokens E m dims wm
                                   | _ \<Rightarrow> Inl AttributeError) (\<lambda>weight_map.
                   bindE (tmul control_feat weight_map) (\<lambda>v1.
                   bindE (mul_weight v1 (cx_coin_flip cx)) (\<lambda>v2.
                     Inr (scale v2 (if gate then 1 else 0)))))
              else Inl NotImplementedError))))))"

text \<open>\<^verbatim>\<open>d[k] = v\<close> for a key the dict has.\<close>

definition dict_set :: "(string \<times> 'a) list \<Rightarrow> string \<Rightarrow> 'a \<Rightarrow> (string \<times> 'a) list" where
  "dict_set d k v = map (\<lambda>(k', v'). if k' = k then (k', v) else (k', v')) d"

text \<open>
  Lines 456 to 459. \<^verbatim>\<open>outs[name] += hint_val\<close> adds in place, which torch allows when
  the sum has the shape of the tensor it is stored in.
\<close>

definition accumulate ::
  "(string \<times> tensor) list \<Rightarrow> string \<Rightarrow> tensor \<Rightarrow> error + (string \<times> tensor) list" where
  "accumulate outs name v =
     (case map_of outs name of
        None \<Rightarrow> Inr (outs @ [(name, v)])
      | Some old \<Rightarrow>
          bindE (tadd old v) (\<lambda>new.
            if shape new = shape old then Inr (dict_set outs name new)
            else Inl RuntimeError))"

text \<open>The variables the block loop assigns.\<close>

record loop_state =
  ls_x :: tensor
  ls_guided_hint :: "tensor option"
  ls_outs :: "(string \<times> tensor) list"

text \<open>
  One round of the loop of line 398, for entry \<open>idx\<close> of \<^verbatim>\<open>blocks.items()\<close>. The message
  of the assertion reads \<^verbatim>\<open>blocks[0]\<close>, which a \<^verbatim>\<open>ModuleDict\<close> does not have: a block of
  another format ends in KeyError.
\<close>

definition block_step ::
  "env \<Rightarrow> model \<Rightarrow> ctrl_ctx \<Rightarrow> (string \<times> block) list \<Rightarrow> (string \<times> linear) list \<Rightarrow> block_inputs
     \<Rightarrow> nat \<times> nat \<times> nat \<times> nat \<Rightarrow> nat \<Rightarrow> nat \<times> string \<times> block \<Rightarrow> loop_state \<Rightarrow> error + loop_state" where
  "block_step E m cx bs zbs inputs dims i entry st =
     (case entry of (idx, name, blk) \<Rightarrow>
        bindE (block0_format bs) (\<lambda>fmt.
        bindE (if fmt = x_format blk then Inr () else Inl KeyError) (\<lambda>_.
        bindE (run blk (ls_x st) inputs) (\<lambda>x1.
        bindE (case ls_guided_hint st of
                 None \<Rightarrow> Inr x1
               | Some guided_hint \<Rightarrow> tadd x1 guided_hint) (\<lambda>x2.
        bindE (hint_val E m cx zbs dims i idx name x2) (\<lambda>v.
        bindE (accumulate (ls_outs st) name v) (\<lambda>outs.
          Inr \<lparr>ls_x = x2, ls_guided_hint = None, ls_outs = outs\<rparr>)))))))"

text \<open>The loop of line 398 over \<^verbatim>\<open>enumerate(blocks.items())\<close>.\<close>

fun block_loop ::
  "env \<Rightarrow> model \<Rightarrow> ctrl_ctx \<Rightarrow> (string \<times> block) list \<Rightarrow> (string \<times> linear) list \<Rightarrow> block_inputs
     \<Rightarrow> nat \<times> nat \<times> nat \<times> nat \<Rightarrow> nat \<Rightarrow> (nat \<times> string \<times> block) list \<Rightarrow> loop_state
     \<Rightarrow> error + loop_state" where
  "block_loop E m cx bs zbs inputs dims i [] st = Inr st"
| "block_loop E m cx bs zbs inputs dims i (entry # rest) st =
     bindE (block_step E m cx bs zbs inputs dims i entry st)
       (block_loop E m cx bs zbs inputs dims i rest)"

text \<open>\<^verbatim>\<open>enumerate(xs)\<close>.\<close>

definition enumerate_items :: "(string \<times> 'a) list \<Rightarrow> (nat \<times> string \<times> 'a) list" where
  "enumerate_items xs = zip [0..<length xs] xs"

subsection \<open>Lines 321 to 396: one control source\<close>

text \<open>
  Lines 323 to 334: the blocks, zero blocks, timestep embedder and norm of source \<open>i\<close>.
  With \<^verbatim>\<open>hint_encoders\<close>, the object's token embedder and extra positional embedder are
  replaced by those of encoder \<open>i\<close>.
\<close>

definition select_source ::
  "nat \<Rightarrow> ((string \<times> block) list \<times> (string \<times> linear) list
            \<times> (tensor \<Rightarrow> error + tensor \<times> tensor option) \<times> (tensor \<Rightarrow> error + tensor)) prog" where
  "select_source i =
     bind get_self (\<lambda>m.
       case hint_encoders m of
         Some encs \<Rightarrow>
           bind (lift (index encs i)) (\<lambda>enc.
           bind (modify_self (\<lambda>m. m\<lparr>x_embedder := enc_x_embedder enc,
                                     extra_pos_embedder := enc_extra_pos_embedder enc\<rparr>)) (\<lambda>_.
             ret (enc_blocks enc, enc_zero_blocks enc, enc_t_embedder enc, enc_affline_norm enc)))
       | None \<Rightarrow> ret (blocks m, zero_blocks m, t_embedder m, affline_norm m))"

text \<open>
  Lines 352 to 369: the affine embedding before the norm, and what is logged beside it.
  \<^verbatim>\<open>affline_emb_B_D += additional_cond_B_D\<close> adds in place.
\<close>

definition affline_embedding ::
  "env \<Rightarrow> model \<Rightarrow> call \<Rightarrow> tensor \<Rightarrow> tensor \<Rightarrow> error + tensor \<times> (string \<times> tensor) list" where
  "affline_embedding E m a x timesteps_B_D =
     (if a_scalar_feature a \<noteq> None then Inl NotImplementedError
      else if additional_timestamp_channels m
      then (case a_image_size a of
              None \<Rightarrow> Inl TypeError
            | Some image_size \<Rightarrow>
                bindE (size_at x 0) (\<lambda>bs.
                bindE (prepare_additional_timestamp_embedder E m bs (a_fps a) image_size)
                  (\<lambda>additional_cond_B_D.
                bindE (tadd timesteps_B_D additional_cond_B_D) (\<lambda>sum.
                  if shape sum = shape timesteps_B_D
                  then Inr (sum, [(''timesteps_B_D'', sum),
                                  (''additional_cond_B_D'', additional_cond_B_D),
                                  (''affline_emb_B_D'', sum)])
                  else Inl RuntimeError))))
      else Inr (timesteps_B_D, [(''timesteps_B_D'', timesteps_B_D),
                                (''affline_emb_B_D'', timesteps_B_D)]))"

text \<open>
  Lines 381 to 396: under sequence parallelism the tokens and the extra positional
  embedding go to the tensor-parallel group, and \<open>T\<close>, \<open>H\<close>, \<open>W\<close>, \<open>B\<close> are bound anew to the
  axes of the embedded sequence.
\<close>

definition scatter_sequence ::
  "env \<Rightarrow> model \<Rightarrow> tensor \<Rightarrow> tensor option \<Rightarrow> nat \<times> nat \<times> nat \<times> nat
     \<Rightarrow> error + tensor \<times> tensor option \<times> (nat \<times> nat \<times> nat \<times> nat)" where
  "scatter_sequence E m x extra dims =
     (if sequence_parallel m
      then bindE (assertE (block_config m = ''FA-CA-MLP'')) (\<lambda>_.
           bindE (unpack5 (shape x)) (\<lambda>(T, H, W, B, D).
           bindE (view x [T * H * W, 1, 1, B, D]) (\<lambda>x1.
           bindE (if tensor_model_parallel_world_size E = 0 then Inl ZeroDivisionError
                  else assertE ((T * H * W) mod tensor_model_parallel_world_size E = 0)) (\<lambda>_.
           bindE (scatter_along_first_dim E x1) (\<lambda>x2.
           bindE (case extra of
                    None \<Rightarrow> Inr None
                  | Some e \<Rightarrow>
                      bindE (view e [T * H * W, 1, 1, B, D]) (\<lambda>e1.
                      bindE (scatter_along_first_dim E e1) (\<lambda>e2. Inr (Some e2)))) (\<lambda>extra1.
             Inr (x2, extra1, (T, H, W, B))))))))
      else Inr (x, extra, dims))"

text \<open>
  The body of the loop of line 321 for source \<open>i\<close> with its guided hint. It takes and
  gives the bindings of \<open>T\<close>, \<open>H\<close>, \<open>W\<close>, \<open>B\<close> and the dict \<^verbatim>\<open>outs\<close>.
\<close>

definition source_pass ::
  "env \<Rightarrow> call \<Rightarrow> ctrl_ctx \<Rightarrow> nat \<times> tensor
     \<Rightarrow> (nat \<times> nat \<times> nat \<times> nat) \<times> (string \<times> tensor) list
     \<Rightarrow> ((nat \<times> nat \<times> nat \<times> nat) \<times> (string \<times> tensor) list) prog" where
  "source_pass E a cx src acc =
     (case src of (i, guided_hint) \<Rightarrow> case acc of (dims, outs) \<Rightarrow>
        bind (select_source i) (\<lambda>(bs, zbs, t_emb, norm).
        bind get_self (\<lambda>m.
        bind (lift (prepare_embedded_sequence E m (cx_x_before_blocks cx)
                      \<lparr>si_fps = a_fps a,
                       si_padding_mask = a_padding_mask a,
                       si_latent_condition = a_latent_condition a,
                       si_latent_condition_sigma = a_latent_condition_sigma a,
                       si_frame_repeat = a_kwargs a ''frame_repeat'',
                       si_view_indices_B_T = a_view_indices_B_T a\<rparr>))
          (\<lambda>(x_B_T_H_W_D, rope_emb_L_1_1_D, extra_pos_emb).
        bind (lift (t_emb (flatten (a_timesteps a)))) (\<lambda>(timesteps_B_D, adaln_lora_B_3D).
        bind (lift (affline_embedding E m a (cx_x_before_blocks cx) timesteps_B_D))
          (\<lambda>(affline_emb0, log_info).
        bind (lift (norm affline_emb0)) (\<lambda>affline_emb_B_D.
        bind (modify_self (\<lambda>m. m\<lparr>affline_scale_log_info := log_info,
                                  affline_emb := Some affline_emb_B_D\<rparr>)) (\<lambda>_.
        bind (lift (rearrange_BTHWD_to_THWBD x_B_T_H_W_D)) (\<lambda>x1.
        bind (lift (case extra_pos_emb of
                      None \<Rightarrow> Inr None
                    | Some e \<Rightarrow> bindE (rearrange_BTHWD_to_THWBD e) (\<lambda>e1. Inr (Some e1))))
          (\<lambda>extra1.
        bind get_self (\<lambda>m1.
        bind (lift (scatter_sequence E m1 x1 extra1 dims)) (\<lambda>(x2, extra2, dims1).
        bind (lift (block_loop E m1 cx bs zbs
                      \<lparr>bi_affline_emb_B_D = affline_emb_B_D,
                       bi_crossattn_emb = cx_crossattn_emb cx,
                       bi_crossattn_mask = cx_crossattn_mask cx,
                       bi_rope_emb_L_1_1_D = rope_emb_L_1_1_D,
                       bi_adaln_lora_B_3D = adaln_lora_B_3D,
                       bi_extra_per_block_pos_emb = extra2\<rparr>
                      dims1 i (enumerate_items bs)
                      \<lparr>ls_x = x2, ls_guided_hint = Some guided_hint, ls_outs = outs\<rparr>))
          (\<lambda>st. ret (dims1, ls_outs st))))))))))))))"

text \<open>The loop of line 321 over \<^verbatim>\<open>enumerate(guided_hints)\<close>.\<close>

fun sources_loop ::
  "env \<Rightarrow> call \<Rightarrow> ctrl_ctx \<Rightarrow> (nat \<times> tensor) list
     \<Rightarrow> (nat \<times> nat \<times> nat \<times> nat) \<times> (string \<times> tensor) list
     \<Rightarrow> ((nat \<times> nat \<times> nat \<times> nat) \<times> (string \<times> tensor) list) prog" where
  "sources_loop E a cx [] acc = ret acc"
| "sources_loop E a cx (src # rest) acc =
     bind (source_pass E a cx src acc) (sources_loop E a cx rest)"

subsection \<open>The whole call\<close>

text \<open>Lines 225 to 459: from the hint to the dict \<^verbatim>\<open>outs\<close>.\<close>

definition control_outs :: "env \<Rightarrow> call \<Rightarrow> tensor \<Rightarrow> (string \<times> tensor) list prog" where
  "control_outs E a hint =
     bind (encode_hints E a hint) (\<lambda>guided_hints.
     bind (lift (assertE (a_data_type a \<noteq> None))) (\<lambda>_.
     bind (lift (unpack5 (shape (a_x a)))) (\<lambda>(B, C, T, H, W).
     bind get_self (\<lambda>m.
     bind (lift (reconcile_channels E m a (B, C, T, H, W))) (\<lambda>x.
     bind (modify_self (\<lambda>m. m\<lparr>crossattn_emb := Some (a_crossattn_emb a),
                               crossattn_mask := a_crossattn_mask a\<rparr>)) (\<lambda>_.
     bind (lift (cross_attention_inputs m a)) (\<lambda>(cemb, cmask).
     bind (coin_flip E a B) (\<lambda>coin.
     bind (control_gates E a) (\<lambda>gates.
     bind (lift (control_weights (a_control_weight a) (length guided_hints))) (\<lambda>cws.
     bind (sources_loop E a
             \<lparr>cx_x_before_blocks = x,
              cx_crossattn_emb = cemb,
              cx_crossattn_mask = cmask,
              cx_coin_flip = coin,
              cx_gates = gates,
              cx_control_weight = cws\<rparr>
             (zip [0..<length guided_hints] guided_hints)
             ((T, H, W, B), [])) (\<lambda>(_, outs).
       ret outs)))))))))))"

text \<open>
  \<^verbatim>\<open>GeneralDITMulticamEncoder.forward\<close>: without a hint the backbone alone, with one the
  backbone with the control signals \<^verbatim>\<open>outs\<close>.
\<close>

definition forward :: "env \<Rightarrow> call \<Rightarrow> tensor prog" where
  "forward E a =
     bind (lift (pop_hint (a_hint_key a) (a_kwargs a))) (\<lambda>(hint, kwargs).
       case hint of
         PyNone \<Rightarrow> lift (call_backbone a kwargs None)
       | PyTensor h \<Rightarrow>
           bind (control_outs E a h) (\<lambda>outs. lift (call_backbone a kwargs (Some outs))))"

section \<open>The backbone\<close>

text \<open>
  Modelled from the spec: the backbone's \<^verbatim>\<open>forward\<close> is not among the sources. By the
  spec it takes the control signals as a map from block names to tensors, treats an absent
  map as uncontrolled, and otherwise adds each entry at the matching block boundary. Its
  embedding, blocks and final layer are functions of the other arguments; an entry is added
  to the hidden state after the block of its name, element by element, to a hidden state of
  the entry's shape.
\<close>

record backbone =
  bb_embed :: "backbone_call \<Rightarrow> error + tensor"
  bb_blocks :: "(string \<times> (tensor \<Rightarrow> backbone_call \<Rightarrow> error + tensor)) list"
  bb_final :: "tensor \<Rightarrow> backbone_call \<Rightarrow> error + tensor"

definition add_control :: "tensor \<Rightarrow> tensor \<Rightarrow> error + tensor" where
  "add_control h c =
     (if shape c = shape h \<and> length (elems c) = length (elems h)
      then Inr (h\<lparr>elems := map (\<lambda>(u, v). u + v) (zip (elems h) (elems c))\<rparr>)
      else Inl RuntimeError)"

fun backbone_blocks ::
  "(string \<times> (tensor \<Rightarrow> backbone_call \<Rightarrow> error + tensor)) list \<Rightarrow> backbone_call
     \<Rightarrow> (string \<times> tensor) list option \<Rightarrow> tensor \<Rightarrow> error + tensor" where
  "backbone_blocks [] c x_ctrl h = Inr h"
| "backbone_blocks ((name, blk) # rest) c x_ctrl h =
     bindE (blk h c) (\<lambda>h1.
     bindE (case x_ctrl of
              None \<Rightarrow> Inr h1
            | Some outs \<Rightarrow>
                (case map_of outs name of
                   None \<Rightarrow> Inr h1
                 | Some v \<Rightarrow> add_control h1 v)) (\<lambda>h2.
       backbone_blocks rest c x_ctrl h2))"

definition backbone_forward :: "backbone \<Rightarrow> backbone_call \<Rightarrow> error + tensor" where
  "backbone_forward bb c =
     (let c0 = c\<lparr>bc_x_ctrl := None\<rparr>
      in bindE (bb_embed bb c0) (\<lambda>h.
         bindE (backbone_blocks (bb_blocks bb) c0 (bc_x_ctrl c) h) (\<lambda>h1.
           bb_final bb h1 c0)))"

section \<open>The resampling of a weight map, frame by frame\<close>

text \<open>
  The resampling in the words of the claim. Output frame \<open>0\<close> comes from the leading input
  frame alone, output frame \<open>t\<close> with \<open>1 \<le> t\<close> from the input frames \<open>8 (t - 1) + 1\<close> to
  \<open>8 t\<close>; \<open>frame_window t\<close> is that range with its end excluded. Each output frame is the
  trilinear interpolation of its window to one frame of \<open>H\<close> by \<open>W\<close>, and the \<open>T\<close> frames are
  concatenated along time.
\<close>

definition frame_window :: "nat \<Rightarrow> nat \<times> nat" where
  "frame_window t = (if t = 0 then (0, 1) else (8 * (t - 1) + 1, 8 * t + 1))"

definition resampled_frame :: "env \<Rightarrow> nat \<Rightarrow> nat \<Rightarrow> tensor \<Rightarrow> nat \<Rightarrow> error + tensor" where
  "resampled_frame E H W weight_map t =
     (case frame_window t of (lo, hi) \<Rightarrow>
        bindE (slice_axis 2 lo hi weight_map) (\<lambda>window. interpolate E window [1, H, W]))"

text \<open>The results of a list of computations done in order; the first error ends them.\<close>

fun collect :: "(error + 'a) list \<Rightarrow> error + 'a list" where
  "collect [] = Inr []"
| "collect (r # rs) = bindE r (\<lambda>v. bindE (collect rs) (\<lambda>vs. Inr (v # vs)))"

definition resampled_map :: "env \<Rightarrow> nat \<Rightarrow> nat \<Rightarrow> nat \<Rightarrow> tensor \<Rightarrow> error + tensor" where
  "resampled_map E T H W weight_map =
     bindE (collect (map (resampled_frame E H W weight_map) [0..<T])) (\<lambda>frames.
       torch_cat frames 2)"

section \<open>Exactly-once injection\<close>



section \<open>What a call leaves unchanged\<close>

text \<open>
  The attributes of the object that \<^verbatim>\<open>forward\<close> never assigns: the object with the nine
  attributes it does assign blanked out.
\<close>

definition settings :: "model \<Rightarrow> model" where
  "settings m =
     m\<lparr>input_hint_block := [],
       pos_embedder := (\<lambda>x fps. Inl RuntimeError),
       x_embedder2 := (\<lambda>x. Inl RuntimeError),
       x_embedder := (\<lambda>x. Inl RuntimeError),
       extra_pos_embedder := None,
       crossattn_emb := None,
       crossattn_mask := None,
       affline_scale_log_info := [],
       affline_emb := None\<rparr>"

text \<open>
  The five module attributes that the per-source selection assigns, or nothing for an
  object with \<^verbatim>\<open>hint_encoders\<close>.
\<close>

definition own_modules ::
  "model \<Rightarrow> (layer list \<times> (tensor \<Rightarrow> tensor option \<Rightarrow> error + tensor) \<times> (tensor \<Rightarrow> error + tensor)
      \<times> (tensor \<Rightarrow> error + tensor) \<times> (tensor \<Rightarrow> tensor option \<Rightarrow> error + tensor) option) option" where
  "own_modules m =
     (case hint_encoders m of
        None \<Rightarrow> Some (input_hint_block m, pos_embedder m, x_embedder2 m, x_embedder m,
                       extra_pos_embedder m)
      | Some encs \<Rightarrow> None)"

text \<open>A program leaves \<open>f\<close> of the state as it was, whether it returns or raises.\<close>

definition unchanged :: "(state \<Rightarrow> 'b) \<Rightarrow> 'a prog \<Rightarrow> bool" where
  "unchanged f p = (\<forall>s. f (snd (p s)) = f s)"

text \<open>What stays of the state: the settings of the object and, without
  \<^verbatim>\<open>hint_encoders\<close>, its own modules.\<close>

definition kept :: "state \<Rightarrow> model \<times> _" where
  "kept s = (settings (self s), own_modules (self s))"

section \<open>Zero projections\<close>

text \<open>Every zero block of the object and of its hint encoders has zero parameters.\<close>

definition zero_projections :: "model \<Rightarrow> bool" where
  "zero_projections m =
     (list_all (\<lambda>(name, l). zero_linear l) (zero_blocks m)
      \<and> (case hint_encoders m of
            None \<Rightarrow> True
          | Some encs \<Rightarrow>
              list_all (\<lambda>enc. list_all (\<lambda>(name, l). zero_linear l) (enc_zero_blocks enc)) encs))"

text \<open>The final layer of the hint cascade is a linear layer with zero parameters.\<close>

definition zero_final_layer :: "layer list \<Rightarrow> bool" where
  "zero_final_layer ls =
     (case rev ls of
        Linear l # _ \<Rightarrow> zero_linear l
      | _ \<Rightarrow> False)"

text \<open>
  A triple for programs: from a state with \<open>P\<close>, a run that returns gives a value and a
  state with \<open>Q\<close>.
\<close>

definition hoare :: "(state \<Rightarrow> bool) \<Rightarrow> 'a prog \<Rightarrow> ('a \<Rightarrow> state \<Rightarrow> bool) \<Rightarrow> bool" where
  "hoare P p Q = (\<forall>s v s'. P s \<and> p s = (Inr v, s') \<longrightarrow> Q v s')"

definition all_zero :: "(string \<times> tensor) list \<Rightarrow> bool" where
  "all_zero outs = list_all (\<lambda>(name, v). zero_tensor v) outs"

section \<open>A small instance\<close>

text \<open>
  An encoder over frames of one pixel with one model channel, two control blocks out of
  three, and a backbone of three blocks. The theorems below are instantiated on it.
\<close>

definition example_linear :: "real \<Rightarrow> real \<Rightarrow> linear" where
  "example_linear w b = \<lparr>in_features = 1, out_features = 1, weight = [[w]], bias = [b]\<rparr>"

definition example_block :: block where
  "example_block = \<lparr>x_format = ''THWBD'', run = (\<lambda>x inputs. Inr (scale x 2))\<rparr>"

text \<open>A patch embedding for frames of one pixel: the sum of the channels.\<close>

definition example_patch_embed :: "tensor \<Rightarrow> error + tensor" where
  "example_patch_embed t =
     (case shape t of
        [B, C, T, H, W] \<Rightarrow>
          Inr \<lparr>shape = [B, T, H, W, 1], elems = map sum_list (chunks (B * T * H * W) C (elems t))\<rparr>
      | _ \<Rightarrow> Inl RuntimeError)"

definition example_dit :: general_dit where
  "example_dit =
     \<lparr>num_blocks = 3, model_channels = 1, in_channels = 1,
      blocks = [(''block0'', example_block), (''block1'', example_block)],
      concat_padding_mask = False, legacy_patch_emb = False, pos_emb_cls = ''rope3d'',
      pos_embedder = (\<lambda>x fps. Inr x), x_embedder = example_patch_embed,
      extra_pos_embedder = None, t_embedder = (\<lambda>t. Inr (t, None)), affline_norm = Inr,
      sequence_parallel = False, use_cross_attn_mask = False,
      additional_timestamp_channels = False, block_config = ''FA-CA-MLP'',
      cp_group = False, n_views = 1, crossattn_emb = None, crossattn_mask = None,
      affline_scale_log_info = [], affline_emb = None\<rparr>"

text \<open>The encoder as constructed: zero blocks and the final layer of the cascade are zero.\<close>

definition example_model :: model where
  "example_model =
     general_dit.extend example_dit
       \<lparr>is_extend_model = False, add_augment_sigma_embedding = False,
        dropout_ctrl_branch = 1 / 2, random_drop_control_blocks = False,
        layer_mask = [False, False, True], hint_channels = 2,
        x_embedder2 = example_patch_embed,
        input_hint_block = [Linear (example_linear 1 0), SiLU, Linear (example_linear 0 0)],
        zero_blocks = [(''block0'', example_linear 0 0), (''block1'', example_linear 0 0)],
        hint_encoders = None\<rparr>"

text \<open>The encoder after training moved its projections away from zero.\<close>

definition trained_model :: model where
  "trained_model =
     example_model
       \<lparr>input_hint_block := [Linear (example_linear 1 0), SiLU, Linear (example_linear 1 5)],
        zero_blocks := [(''block0'', example_linear 1 1), (''block1'', example_linear 2 1)]\<rparr>"

definition example_encoder :: hint_encoder where
  "example_encoder =
     \<lparr>enc_input_hint_block = [Linear (example_linear 1 0), SiLU, Linear (example_linear 1 7)],
      enc_pos_embedder = (\<lambda>x fps. Inr x),
      enc_x_embedder2 = example_patch_embed,
      enc_blocks = [(''block0'', example_block), (''block1'', example_block)],
      enc_zero_blocks = [(''block0'', example_linear 1 1), (''block1'', example_linear 2 1)],
      enc_t_embedder = (\<lambda>t. Inr (t, None)),
      enc_affline_norm = Inr,
      enc_x_embedder = example_patch_embed,
      enc_extra_pos_embedder = None\<rparr>"

text \<open>The encoder with two control sources, each with an encoder of its own.\<close>

definition multi_model :: model where
  "multi_model = trained_model\<lparr>hint_encoders := Some [example_encoder, example_encoder]\<rparr>"

definition example_env :: env where
  "example_env =
     \<lparr>is_grad_enabled = False,
      torch_rand = (\<lambda>k. 3 / 4),
      np_random = (\<lambda>k. 0),
      prepare_embedded_sequence =
        (\<lambda>m x si. bindE (x_embedder m x) (\<lambda>t. Inr (t, None, None))),
      prepare_additional_timestamp_embedder = (\<lambda>m bs fps image_size. Inr image_size),
      scatter_along_first_dim = Inr,
      tensor_model_parallel_world_size = 1,
      split_inputs_cp = Inr,
      resize_nearest = (\<lambda>t s. Inr t),
      trilinear = (\<lambda>t s. replicate (numel (take 2 (shape t) @ s)) 1)\<rparr>"

definition example_backbone :: backbone where
  "example_backbone =
     \<lparr>bb_embed = (\<lambda>c. bindE (example_patch_embed (bc_x c)) rearrange_BTHWD_to_THWBD),
      bb_blocks = [(''block0'', \<lambda>h c. Inr (scale h 2)),
                   (''block1'', \<lambda>h c. Inr (scale h 2)),
                   (''block2'', \<lambda>h c. Inr (scale h 2))],
      bb_final = (\<lambda>h c. Inr h)\<rparr>"

definition example_base :: base_model where
  "example_base =
     \<lparr>net_forward = backbone_forward example_backbone, parameters_requires_grad = [False]\<rparr>"

definition pixel :: "real \<Rightarrow> tensor" where
  "pixel v = \<lparr>shape = [1, 1, 1, 1, 1], elems = [v]\<rparr>"

definition example_call :: call where
  "example_call =
     \<lparr>a_x = pixel 3,
      a_timesteps = \<lparr>shape = [1], elems = [5]\<rparr>,
      a_crossattn_emb = \<lparr>shape = [1, 1, 1], elems = [7]\<rparr>,
      a_crossattn_mask = None, a_fps = None, a_image_size = None, a_padding_mask = None,
      a_scalar_feature = None, a_data_type = Some VIDEO,
      a_hint_key = Some ''hint'', a_base_model = Some example_base,
      a_control_weight = W_Num 1, a_num_layers_to_use = - 1,
      a_condition_video_input_mask = None, a_latent_condition = None,
      a_latent_condition_sigma = None, a_view_indices_B_T = None,
      a_kwargs = [''hint'' \<mapsto> PyTensor (pixel 0)]\<rparr>"

definition example_state :: "model \<Rightarrow> state" where
  "example_state m = \<lparr>self = m, torch_draws = 0, np_draws = 0\<rparr>"



text \<open>
  A weight map of nine frames of one pixel, and an environment whose interpolation to one
  pixel is the mean of the window.
\<close>

definition example_weight_map :: tensor where
  "example_weight_map = \<lparr>shape = [1, 1, 9, 1, 1], elems = [10, 1, 2, 3, 4, 5, 6, 7, 8]\<rparr>"

definition mean_env :: env where
  "mean_env =
     example_env\<lparr>trilinear :=
       (\<lambda>t s. replicate (numel (take 2 (shape t) @ s)) (sum_list (elems t) / real (length (elems t))))\<rparr>"

text \<open>A linear layer whose weights all are \<open>w\<close> and whose biases all are \<open>b\<close>.\<close>

definition const_linear :: "nat \<Rightarrow> nat \<Rightarrow> real \<Rightarrow> real \<Rightarrow> linear" where
  "const_linear i o' w b =
     \<lparr>in_features = i, out_features = o', weight = replicate o' (replicate i w),
      bias = replicate o' b\<rparr>"

text \<open>One token of \<open>n\<close> channels, all of them \<open>v\<close>.\<close>

definition row :: "nat \<Rightarrow> real \<Rightarrow> tensor" where
  "row n v = \<lparr>shape = [1, 1, 1, 1, n], elems = replicate n v\<rparr>"

text \<open>
  The construction of the small instance: the parent gives \<open>example_dit\<close>, fresh layers
  have weights \<open>1\<close> and biases \<open>0\<close>, and \<^verbatim>\<open>init_weights\<close> leaves them so.
\<close>

definition example_construction :: construction where
  "example_construction =
     \<lparr>super_init = (\<lambda>inc kw. Inr example_dit),
      nn_Linear = (\<lambda>k i o'. const_linear i o' 1 0),
      PatchEmbed = (\<lambda>inc base. example_patch_embed),
      xavier_uniform = (\<lambda>pe. pe),
      init_weights = (\<lambda>m. m)\<rparr>"

definition example_kwargs :: init_kwargs where
  "example_kwargs =
     \<lparr>kw_add_augment_sigma_embedding = None, kw_hint_channels = Some 2,
      kw_dropout_ctrl_branch = None, kw_num_control_blocks = Some 2,
      kw_num_blocks = Some 3, kw_layer_mask = None,
      kw_random_drop_control_blocks = None\<rparr>"

text \<open>The small instance as \<^verbatim>\<open>__init__\<close> constructs it.\<close>

definition constructed_model :: model where
  "constructed_model =
     (case init example_construction 1 False example_kwargs of
        Inr m \<Rightarrow> m
      | Inl e \<Rightarrow> example_model)"

text \<open>
  The states of the small instance: the settings of \<open>example_model\<close> but for the zero
  blocks, the random block drop and the hint encoders, and the embedders of the instance.
\<close>

definition pixel_state ::
  "(string \<times> linear) list \<Rightarrow> bool \<Rightarrow> hint_encoder list option \<Rightarrow> state \<Rightarrow> bool" where
  "pixel_state zbs rdrop encs s =
     (settings (self s)
        = settings (example_model\<lparr>zero_blocks := zbs, random_drop_control_blocks := rdrop,
                                  hint_encoders := encs\<rparr>)
      \<and> x_embedder2 (self s) = example_patch_embed
      \<and> pos_embedder (self s) = (\<lambda>x fps. Inr x)
      \<and> x_embedder (self s) = example_patch_embed)"

text \<open>The calls of the small instance: \<open>example_call\<close> but for the keyword bag and the layer count.\<close>

definition pixel_call :: "call \<Rightarrow> bool" where
  "pixel_call a = (a\<lparr>a_kwargs := Map.empty, a_num_layers_to_use := 0\<rparr>
                    = example_call\<lparr>a_kwargs := Map.empty, a_num_layers_to_use := 0\<rparr>)"

text \<open>The environments of the small instance: \<open>example_env\<close> but for the autograd switch.\<close>

definition pixel_env :: "env \<Rightarrow> bool" where
  "pixel_env E = (E\<lparr>is_grad_enabled := False\<rparr> = example_env)"

section \<open>Basic facts\<close>

lemma chunks_length: "length (chunks k n xs) = k"
  by (induction k arbitrary: xs) auto

lemma bindE_Inl [simp]: "bindE (Inl e) f = Inl e"
  by (simp add: bindE_def)

lemma bindE_Inr [simp]: "bindE (Inr v) f = f v"
  by (simp add: bindE_def)

lemma bindE_eq_Inr: "bindE r f = Inr y \<longleftrightarrow> (\<exists>v. r = Inr v \<and> f v = Inr y)"
  by (cases r) auto

lemma assertE_simps [simp]: "assertE True = Inr ()" "assertE False = Inl AssertionError"
  by (simp_all add: assertE_def)

lemma shape_zeros [simp]: "shape (zeros s) = s"
  by (simp add: zeros_def)

section \<open>Hint channel padding\<close>






section \<open>Running programs\<close>

lemma lift_apply [simp]: "lift r s = (r, s)"
  by (simp add: lift_def)

lemma ret_apply [simp]: "ret v s = (Inr v, s)"
  by (simp add: ret_def)

lemma bind_lift_Inl [simp]: "bind (lift (Inl e)) f s = (Inl e, s)"
  by (simp add: bind_def)

lemma bind_lift_Inr [simp]: "bind (lift (Inr v)) f s = f v s"
  by (simp add: bind_def)

section \<open>Bypass\<close>


subsection \<open>Computing on the small instance\<close>

lemma shape_pixel [simp]: "shape (pixel v) = [1, 1, 1, 1, 1]"
  by (simp add: pixel_def)

lemma elems_pixel [simp]: "elems (pixel v) = [v]"
  by (simp add: pixel_def)

lemma scale_pixel [simp]: "scale (pixel v) c = pixel (v * c)"
  by (simp add: pixel_def scale_def)

lemma rearrange_pixel [simp]: "rearrange_BTHWD_to_THWBD (pixel v) = Inr (pixel v)"
  by (simp add: rearrange_BTHWD_to_THWBD_def permute_def pixel_def numel_def eval_nat_numeral)

lemma patch_embed_pixel [simp]: "example_patch_embed (pixel v) = Inr (pixel v)"
  by (simp add: example_patch_embed_def pixel_def)

lemma tadd_pixel [simp]: "tadd (pixel u) (pixel v) = Inr (pixel (u + v))"
  by (simp add: tadd_def pointwise_def broadcast_shapes_def expand_to_def pixel_def numel_def)

lemma tmul_pixel [simp]: "tmul (pixel u) (pixel v) = Inr (pixel (u * v))"
  by (simp add: tmul_def pointwise_def broadcast_shapes_def expand_to_def pixel_def numel_def)

lemma linear_pixel [simp]: "linear_apply (example_linear w b) (pixel v) = Inr (pixel (w * v + b))"
  by (simp add: linear_apply_def example_linear_def pixel_def numel_def dot_def)

lemma silu_zero [simp]: "silu 0 = 0"
  by (simp add: silu_def)


lemma example_call_simps [simp]:
  "a_x example_call = pixel 3"
  "a_hint_key example_call = Some ''hint''"
  "a_base_model example_call = Some example_base"
  by (simp_all add: example_call_def)



section \<open>The attributes a call assigns\<close>

lemma get_self_apply [simp]: "get_self s = (Inr (self s), s)"
  by (simp add: get_self_def)

lemma modify_self_apply [simp]: "modify_self g s = (Inr (), s\<lparr>self := g (self s)\<rparr>)"
  by (simp add: modify_self_def)

lemma unchangedD: "unchanged f p \<Longrightarrow> f (snd (p s)) = f s"
  by (simp add: unchanged_def)

lemma unchanged_lift [simp, intro!]: "unchanged f (lift r)"
  by (simp add: unchanged_def)

lemma unchanged_ret [simp, intro!]: "unchanged f (ret v)"
  by (simp add: unchanged_def)

lemma unchanged_Pair [simp, intro!]: "unchanged f (Pair r)"
  by (simp add: unchanged_def)

lemma unchanged_get_self [simp, intro!]: "unchanged f get_self"
  by (simp add: unchanged_def)

lemma unchanged_bind [intro!]:
  assumes "unchanged f p" and "\<And>v. unchanged f (g v)"
  shows "unchanged f (bind p g)"
proof -
  have "f (snd (bind p g s)) = f s" for s
  proof (cases "p s")
    case (Pair r s1)
    with assms(1) have s1: "f s1 = f s"
      by (metis snd_conv unchanged_def)
    show ?thesis
    proof (cases r)
      case (Inl e)
      with Pair s1 show ?thesis by (simp add: bind_def)
    next
      case (Inr v)
      with Pair s1 assms(2) [of v] show ?thesis by (simp add: bind_def unchanged_def)
    qed
  qed
  then show ?thesis by (simp add: unchanged_def)
qed

lemma unchanged_modify_self:
  "(\<And>s. f (s\<lparr>self := g (self s)\<rparr>) = f s) \<Longrightarrow> unchanged f (modify_self g)"
  by (simp add: unchanged_def)

lemma unchanged_case_prod [intro!]:
  "(\<And>a b. unchanged f (g a b)) \<Longrightarrow> unchanged f (case x of (a, b) \<Rightarrow> g a b)"
  by (cases x) simp

lemma unchanged_case_option [intro!]:
  "unchanged f p \<Longrightarrow> (\<And>v. unchanged f (g v)) \<Longrightarrow> unchanged f (case x of None \<Rightarrow> p | Some v \<Rightarrow> g v)"
  by (cases x) simp_all

lemma unchanged_if [intro!]:
  "unchanged f p \<Longrightarrow> unchanged f q \<Longrightarrow> unchanged f (if c then p else q)"
  by simp

lemma kept_select_hint_encoder: "unchanged kept (select_hint_encoder i)"
  by (auto simp: unchanged_def select_hint_encoder_def bind_def kept_def settings_def
      own_modules_def index_def split: option.splits)

lemma kept_encode_hints_loop: "unchanged kept (encode_hints_loop E a hint is)"
  by (induction "is") (auto intro: kept_select_hint_encoder)

lemma kept_encode_hints: "unchanged kept (encode_hints E a hint)"
  unfolding encode_hints_def by (auto intro: kept_encode_hints_loop)

lemma kept_torch_rand_draw: "unchanged kept (torch_rand_draw E B)"
  by (simp add: unchanged_def torch_rand_draw_def kept_def)

lemma kept_np_randint: "unchanged kept (np_randint E n)"
  by (simp add: unchanged_def np_randint_def kept_def)

lemma kept_coin_flip: "unchanged kept (coin_flip E a B)"
  unfolding coin_flip_def Let_def by (auto intro: kept_torch_rand_draw)

lemma kept_control_gates: "unchanged kept (control_gates E a)"
  unfolding control_gates_def by (auto intro: kept_np_randint)

lemma kept_select_source: "unchanged kept (select_source i)"
  by (auto simp: unchanged_def select_source_def bind_def kept_def settings_def
      own_modules_def index_def split: option.splits)

lemma kept_log: "unchanged kept (modify_self (\<lambda>m. m\<lparr>affline_scale_log_info := l, affline_emb := e\<rparr>))"
  by (rule unchanged_modify_self) (simp add: kept_def settings_def own_modules_def split: option.splits)

lemma kept_crossattn: "unchanged kept (modify_self (\<lambda>m. m\<lparr>crossattn_emb := c, crossattn_mask := k\<rparr>))"
  by (rule unchanged_modify_self) (simp add: kept_def settings_def own_modules_def split: option.splits)

lemma kept_source_pass: "unchanged kept (source_pass E a cx src acc)"
  unfolding source_pass_def by (auto intro: kept_select_source kept_log)

lemma kept_sources_loop: "unchanged kept (sources_loop E a cx srcs acc)"
  by (induction srcs arbitrary: acc) (auto intro: kept_source_pass)

lemma kept_control_outs: "unchanged kept (control_outs E a hint)"
  unfolding control_outs_def
  by (auto intro: kept_encode_hints kept_crossattn kept_coin_flip kept_control_gates kept_sources_loop)

lemma unchanged_case_pyval [intro!]:
  "unchanged f p \<Longrightarrow> (\<And>v. unchanged f (g v)) \<Longrightarrow> unchanged f (case x of PyNone \<Rightarrow> p | PyTensor v \<Rightarrow> g v)"
  by (cases x) simp_all

lemma kept_forward: "unchanged kept (forward E a)"
  unfolding forward_def by (auto intro: kept_control_outs)

section \<open>Runs of the small instance\<close>

lemmas example_defs = example_model_def trained_model_def multi_model_def example_dit_def
  general_dit.defs model.defs example_encoder_def example_state_def

lemma pad_pixel [simp]:
  "pad_hint 2 (pixel v) = Inr \<lparr>shape = [1, 2, 1, 1, 1], elems = [v, 0]\<rparr>"
  by (simp add: pad_hint_def size_at_def cat2_def cat_compatible_def pixel_def zeros_def numel_def)

lemma patch_embed_two [simp]:
  "example_patch_embed \<lparr>shape = [Suc 0, 2, Suc 0, Suc 0, Suc 0], elems = [u, v]\<rparr> = Inr (pixel (u + v))"
  by (simp add: example_patch_embed_def pixel_def)

lemma rearrange_emb [simp]:
  "rearrange_BMD_to_MBD \<lparr>shape = [Suc 0, Suc 0, Suc 0], elems = [v]\<rparr>
     = Inr \<lparr>shape = [1, 1, 1], elems = [v]\<rparr>"
  by (simp add: rearrange_BMD_to_MBD_def permute_def numel_def eval_nat_numeral)

lemma chunk_pixel [simp]: "torch_chunk (pixel v) (Suc 0) 3 = Inr [pixel v]"
  by (simp add: torch_chunk_def size_at_def pixel_def eval_nat_numeral numel_def)

lemma layer_pixel [simp]:
  "layer_apply (Linear (example_linear w b)) (pixel v) = Inr (pixel (w * v + b))"
  "layer_apply SiLU (pixel v) = Inr (pixel (silu v))"
  by (simp, simp add: pixel_def)

lemma x_format_example_block [simp]: "x_format example_block = ''THWBD''"
  by (simp add: example_block_def)

lemma run_example_block [simp]: "run example_block (pixel v) inputs = Inr (pixel (v * 2))"
  by (simp add: example_block_def)

lemma size_pixel [simp]: "size_at (pixel v) 0 = Inr 1" "size_at (pixel v) (Suc 0) = Inr 1"
  by (simp_all add: size_at_def)

lemma pixel_elems_update [simp]: "(pixel v)\<lparr>elems := [u]\<rparr> = pixel u"
  by (simp add: pixel_def)

lemma unpack_pixel [simp]: "unpack5 (shape (pixel v)) = Inr (1, 1, 1, 1, 1)"
  by (simp add: unpack5_def)


lemma encode_hint_pixel:
  assumes "hint_channels m = 2" "\<not> concat_padding_mask m" "x_embedder2 m = example_patch_embed"
    "pos_emb_cls m = ''rope3d''" "pos_embedder m = (\<lambda>x fps. Inr x)"
    "map_of (blocks m) ''block0'' = Some example_block" "\<not> sequence_parallel m"
    "input_hint_block m = [Linear (example_linear 1 0), SiLU, Linear (example_linear w b)]"
  shows "encode_hint E m (pixel 0) fps pm (Some dt) = Inr (pixel b)"
  using assms
  by (simp add: encode_hint_def prepare_hint_embedded_sequence_def block0_format_def lookup_def
      lower_char_def)

lemma hint_val_pixel:
  assumes "index (cx_gates cx) idx = Inr gate" "index (cx_control_weight cx) i = Inr (W_Num c)"
    "cx_coin_flip cx = W_Num 1" "map_of zbs name = Some (example_linear w b)"
  shows "hint_val E m cx zbs dims i idx name (pixel v)
           = Inr (pixel ((w * v + b) * c * (if gate then 1 else 0)))"
  using assms by (simp add: hint_val_def is_scalar_weight_def lookup_def mul_weight_def)

lemma block_step_pixel:
  assumes "map_of bs ''block0'' = Some example_block"
    "index (cx_gates cx) idx = Inr gate" "index (cx_control_weight cx) i = Inr (W_Num c)"
    "cx_coin_flip cx = W_Num 1" "map_of zbs name = Some (example_linear w b)"
    "map_of outs name = None"
  shows "block_step E m cx bs zbs inputs dims i (idx, name, example_block)
           \<lparr>ls_x = pixel v, ls_guided_hint = Some (pixel g), ls_outs = outs\<rparr>
         = Inr \<lparr>ls_x = pixel (v * 2 + g), ls_guided_hint = None,
                ls_outs = outs @ [(name, pixel ((w * (v * 2 + g) + b) * c * (if gate then 1 else 0)))]\<rparr>"
    and "block_step E m cx bs zbs inputs dims i (idx, name, example_block)
           \<lparr>ls_x = pixel v, ls_guided_hint = None, ls_outs = outs\<rparr>
         = Inr \<lparr>ls_x = pixel (v * 2), ls_guided_hint = None,
                ls_outs = outs @ [(name, pixel ((w * (v * 2) + b) * c * (if gate then 1 else 0)))]\<rparr>"
  using assms
  by (simp_all add: block_step_def block0_format_def lookup_def hint_val_pixel accumulate_def)


lemma pixel_stateD:
  assumes "pixel_state zbs rdrop encs s"
  shows "blocks (self s) = [(''block0'', example_block), (''block1'', example_block)]"
    "zero_blocks (self s) = zbs" "random_drop_control_blocks (self s) = rdrop"
    "hint_encoders (self s) = encs" "hint_channels (self s) = 2"
    "layer_mask (self s) = [False, False, True]"
    "\<not> concat_padding_mask (self s)" "pos_emb_cls (self s) = ''rope3d''"
    "\<not> sequence_parallel (self s)" "\<not> use_cross_attn_mask (self s)"
    "\<not> additional_timestamp_channels (self s)"
    "t_embedder (self s) = (\<lambda>t. Inr (t, None))" "affline_norm (self s) = Inr"
    "x_embedder2 (self s) = example_patch_embed" "pos_embedder (self s) = (\<lambda>x fps. Inr x)"
    "x_embedder (self s) = example_patch_embed" "dropout_ctrl_branch (self s) = 1 / 2"
  using assms
  by (cases "self s"; simp add: pixel_state_def settings_def example_defs)+

lemma pixel_callD:
  assumes "pixel_call a"
  shows "a_x a = pixel 3" "a_data_type a = Some VIDEO" "a_condition_video_input_mask a = None"
    "a_crossattn_emb a = \<lparr>shape = [1, 1, 1], elems = [7]\<rparr>" "a_crossattn_mask a = None"
    "a_scalar_feature a = None" "a_base_model a = Some example_base"
    "a_control_weight a = W_Num 1" "a_fps a = None" "a_padding_mask a = None"
    "a_hint_key a = Some ''hint''"
  using assms
  by (cases a; simp add: pixel_call_def example_call_def)+

lemma pixel_envD:
  assumes "pixel_env E"
  shows "prepare_embedded_sequence E = (\<lambda>m x si. bindE (x_embedder m x) (\<lambda>t. Inr (t, None, None)))"
    "scatter_along_first_dim E = Inr"
  using assms
  by (cases E; simp add: pixel_env_def example_env_def)+


lemma enumerate_two [simp]: "enumerate_items [p, q] = [(0, p), (1, q)]"
  by (simp add: enumerate_items_def upt_rec)

lemma accumulate_pixel [simp]:
  "accumulate [] n t = Inr [(n, t)]"
  "accumulate [(''block0'', u)] ''block1'' t = Inr [(''block0'', u), (''block1'', t)]"
  "accumulate [(''block0'', pixel p0), (''block1'', pixel p1)] ''block0'' (pixel v)
     = Inr [(''block0'', pixel (p0 + v)), (''block1'', pixel p1)]"
  "accumulate [(''block0'', pixel p0), (''block1'', pixel p1)] ''block1'' (pixel v)
     = Inr [(''block0'', pixel p0), (''block1'', pixel (p1 + v))]"
  by (simp_all add: accumulate_def dict_set_def)

lemma block_loop_pixel:
  assumes "cx_gates cx = [g0, g1]" and "index (cx_control_weight cx) i = Inr (W_Num c)"
    and "cx_coin_flip cx = W_Num 1"
  shows "block_loop E m cx [(''block0'', example_block), (''block1'', example_block)]
           [(''block0'', example_linear w0 b0), (''block1'', example_linear w1 b1)] inputs dims i
           [(0, ''block0'', example_block), (Suc 0, ''block1'', example_block)]
           \<lparr>ls_x = pixel v, ls_guided_hint = Some (pixel g), ls_outs = []\<rparr>
         = Inr \<lparr>ls_x = pixel ((v * 2 + g) * 2), ls_guided_hint = None,
                ls_outs = [(''block0'', pixel ((w0 * (v * 2 + g) + b0) * c * (if g0 then 1 else 0))),
                           (''block1'', pixel ((w1 * ((v * 2 + g) * 2) + b1) * c * (if g1 then 1 else 0)))]\<rparr>"
    and "block_loop E m cx [(''block0'', example_block), (''block1'', example_block)]
           [(''block0'', example_linear w0 b0), (''block1'', example_linear w1 b1)] inputs dims i
           [(0, ''block0'', example_block), (Suc 0, ''block1'', example_block)]
           \<lparr>ls_x = pixel v, ls_guided_hint = Some (pixel g),
            ls_outs = [(''block0'', pixel p0), (''block1'', pixel p1)]\<rparr>
         = Inr \<lparr>ls_x = pixel ((v * 2 + g) * 2), ls_guided_hint = None,
                ls_outs = [(''block0'', pixel (p0 + (w0 * (v * 2 + g) + b0) * c * (if g0 then 1 else 0))),
                           (''block1'', pixel (p1 + (w1 * ((v * 2 + g) * 2) + b1) * c * (if g1 then 1 else 0)))]\<rparr>"
  using assms
  by (simp_all add: block_step_def block0_format_def lookup_def hint_val_pixel index_def)

lemma encode_hints_pixel:
  assumes "pixel_state zbs rd None s" and "pixel_call a"
    and "input_hint_block (self s) = [Linear (example_linear 1 0), SiLU, Linear (example_linear w b)]"
  shows "encode_hints E a (pixel 0) s = (Inr [pixel b], s)"
  using assms(3) pixel_stateD [OF assms(1)] pixel_callD [OF assms(2)]
  by (simp add: encode_hints_def bind_def encode_hint_pixel [where w = w and b = b])

lemma control_gates_pixel:
  assumes "pixel_state zbs rd encs s" and "\<not> (rd \<and> is_grad_enabled E)"
  shows "control_gates E a s
           = (Inr [0 < (if rd \<and> a_num_layers_to_use a \<noteq> - 1 then a_num_layers_to_use a else 2),
                   1 < (if rd \<and> a_num_layers_to_use a \<noteq> - 1 then a_num_layers_to_use a else 2)], s)"
  using assms(2) pixel_stateD [OF assms(1)]
  by (simp add: control_gates_def bind_def upt_rec)

lemma coin_flip_pixel:
  assumes "pixel_call a"
  shows "coin_flip E a B s = (Inr (W_Num 1), s)"
  using pixel_callD [OF assms] by (simp add: coin_flip_def example_base_def)


lemma bind_fst: "fst (p s) = Inr r \<Longrightarrow> bind p f s = f r (snd (p s))"
  by (cases "p s") (simp add: bind_def)

lemma pixel_state_kept:
  assumes "pixel_state zbs rd None s" and "kept s' = kept s"
  shows "pixel_state zbs rd None s'"
proof -
  from assms(1) have "hint_encoders (self s) = None"
    by (rule pixel_stateD)
  moreover from assms(2) have "settings (self s') = settings (self s)"
    and "own_modules (self s') = own_modules (self s)"
    by (simp_all add: kept_def)
  moreover from this(1) have "hint_encoders (self s') = hint_encoders (self s)"
    by (cases "self s"; cases "self s'"; simp add: settings_def)
  ultimately show ?thesis
    using assms(1) by (simp add: pixel_state_def own_modules_def)
qed

lemma source_pass_pixel:
  assumes "pixel_state [(''block0'', example_linear w0 b0), (''block1'', example_linear w1 b1)] rd None s"
    and "pixel_call a" and "pixel_env E"
    and "cx_x_before_blocks cx = pixel 3" and "cx_gates cx = [g0, g1]"
    and "index (cx_control_weight cx) i = Inr (W_Num c)" and "cx_coin_flip cx = W_Num 1"
  shows "fst (source_pass E a cx (i, pixel g) (dims, []) s)
         = Inr (dims, [(''block0'', pixel ((w0 * (3 * 2 + g) + b0) * c * (if g0 then 1 else 0))),
                       (''block1'', pixel ((w1 * ((3 * 2 + g) * 2) + b1) * c * (if g1 then 1 else 0)))])"
  using assms(4-7) pixel_stateD [OF assms(1)] pixel_callD [OF assms(2)] pixel_envD [OF assms(3)]
  by (simp add: source_pass_def bind_def select_source_def affline_embedding_def
      scatter_sequence_def block_loop_pixel(1) del: block_loop.simps)


lemma pixel_state_crossattn:
  "pixel_state zbs rd encs s \<Longrightarrow>
   pixel_state zbs rd encs (s\<lparr>self := self s\<lparr>crossattn_emb := c, crossattn_mask := k\<rparr>\<rparr>)"
  by (simp add: pixel_state_def settings_def)

lemma cross_attention_pixel:
  assumes "pixel_state zbs rd encs s" and "pixel_call a"
  shows "cross_attention_inputs (self s) a = Inr (\<lparr>shape = [1, 1, 1], elems = [7]\<rparr>, None)"
  using pixel_stateD [OF assms(1)] pixel_callD [OF assms(2)]
  by (simp add: cross_attention_inputs_def block0_format_def lookup_def)

lemma reconcile_pixel:
  assumes "pixel_call a"
  shows "reconcile_channels E m a dims = Inr (pixel 3)"
  using pixel_callD [OF assms] by (cases dims) (simp add: reconcile_channels_def)

lemma control_outs_pixel:
  assumes st: "pixel_state [(''block0'', example_linear w0 b0), (''block1'', example_linear w1 b1)] rd None s"
    and a: "pixel_call a" and E: "pixel_env E" and rd: "\<not> (rd \<and> is_grad_enabled E)"
    and ihb: "input_hint_block (self s) = [Linear (example_linear 1 0), SiLU, Linear (example_linear w b)]"
    and k: "k = (if rd \<and> a_num_layers_to_use a \<noteq> - 1 then a_num_layers_to_use a else 2)"
  shows "fst (control_outs E a (pixel 0) s)
         = Inr [(''block0'', pixel ((w0 * (3 * 2 + b) + b0) * 1 * (if 0 < k then 1 else 0))),
                (''block1'', pixel ((w1 * ((3 * 2 + b) * 2) + b1) * 1 * (if 1 < k then 1 else 0)))]"
proof -
  let ?s1 = "s\<lparr>self := self s\<lparr>crossattn_emb := Some (a_crossattn_emb a),
                                 crossattn_mask := a_crossattn_mask a\<rparr>\<rparr>"
  let ?cx = "\<lparr>cx_x_before_blocks = pixel 3, cx_crossattn_emb = \<lparr>shape = [1, 1, 1], elems = [7]\<rparr>,
              cx_crossattn_mask = None, cx_coin_flip = W_Num 1, cx_gates = [0 < k, 1 < k],
              cx_control_weight = [W_Num 1]\<rparr>"
  have st1: "pixel_state [(''block0'', example_linear w0 b0), (''block1'', example_linear w1 b1)] rd None ?s1"
    using st by (rule pixel_state_crossattn)
  have sp: "fst (source_pass E a ?cx (0, pixel b) ((1, 1, 1, 1), []) ?s1)
         = Inr ((1, 1, 1, 1), [(''block0'', pixel ((w0 * (3 * 2 + b) + b0) * 1 * (if 0 < k then 1 else 0))),
                (''block1'', pixel ((w1 * ((3 * 2 + b) * 2) + b1) * 1 * (if 1 < k then 1 else 0)))])"
    by (rule source_pass_pixel [OF st1 a E]) (simp_all add: index_def)
  then obtain s2 where sp': "source_pass E a ?cx (0, pixel b) ((1, 1, 1, 1), []) ?s1
         = (Inr ((1, 1, 1, 1), [(''block0'', pixel ((w0 * (3 * 2 + b) + b0) * 1 * (if 0 < k then 1 else 0))),
                (''block1'', pixel ((w1 * ((3 * 2 + b) * 2) + b1) * 1 * (if 1 < k then 1 else 0)))]), s2)"
    by (cases "source_pass E a ?cx (0, pixel b) ((1, 1, 1, 1), []) ?s1") auto
  have cg: "control_gates E a ?s1 = (Inr [0 < k, 1 < k], ?s1)"
    unfolding k by (rule control_gates_pixel [OF st1 rd])
  show ?thesis
    using pixel_callD [OF a] sp' cg
    by (simp add: control_outs_def bind_def encode_hints_pixel [OF st a ihb] reconcile_pixel [OF a]
        cross_attention_pixel [OF st a] coin_flip_pixel [OF a] unpack5_def
        control_weights_def upt_rec)
qed

section \<open>Zero projections give zero control signals\<close>

lemma zero_linear_zero_module: "zero_linear (zero_module l)"
  by (simp add: zero_linear_def zero_module_def list_all_iff)

lemma dot_zero: "list_all (\<lambda>v. v = 0) w \<Longrightarrow> dot w xs = 0"
proof (induction w arbitrary: xs)
  case Nil
  then show ?case by (simp add: dot_def)
next
  case (Cons a w)
  then show ?case by (cases xs) (simp_all add: dot_def)
qed

lemma linear_apply_zero:
  assumes "zero_linear l" and "linear_apply l t = Inr v"
  shows "zero_tensor v"
proof -
  have "dot w row + b = 0" if "(w, b) \<in> set (zip (weight l) (bias l))" for w b row
  proof -
    from that have "w \<in> set (weight l)" and "b \<in> set (bias l)"
      by (auto dest: set_zip_leftD set_zip_rightD)
    with assms(1) show ?thesis
      by (simp add: zero_linear_def list_all_iff dot_zero)
  qed
  with assms(2) show ?thesis
    by (auto simp: linear_apply_def zero_tensor_def list_all_iff split: if_splits)
qed

lemma chunks_subset: "c \<in> set (chunks k n xs) \<Longrightarrow> set c \<subseteq> set xs"
proof (induction k arbitrary: xs)
  case 0
  then show ?case by simp
next
  case (Suc k)
  then show ?case
    by (auto dest: in_set_takeD in_set_dropD)
qed

lemma expand_elems_subset: "set (expand_elems as ts xs) \<subseteq> set xs"
proof (induction as ts xs rule: expand_elems.induct)
  case (1 a as t ts xs)
  show ?case
  proof (cases "a = t")
    case True
    have "set (expand_elems as ts c) \<subseteq> set xs" if "c \<in> set (chunks a (numel as) xs)" for c
      using 1(1) [OF True that] chunks_subset [OF that] by blast
    with True show ?thesis by auto
  next
    case False
    with 1(2) show ?thesis
      by (cases t) auto
  qed
qed simp_all

lemma expand_to_zero: "zero_tensor t \<Longrightarrow> u \<in> set (expand_to s t) \<Longrightarrow> u = 0"
  using expand_elems_subset [of _ s "elems t"]
  by (auto simp: zero_tensor_def list_all_iff expand_to_def)

lemma zero_scale: "zero_tensor t \<Longrightarrow> zero_tensor (scale t c)"
  by (simp add: zero_tensor_def scale_def list_all_iff)

lemma scale_by_zero: "zero_tensor (scale t 0)"
  by (simp add: zero_tensor_def scale_def list_all_iff)

lemma zero_tmul:
  assumes "zero_tensor a" and "tmul a b = Inr v"
  shows "zero_tensor v"
proof -
  from assms(2) obtain s where
    v: "elems v = map (\<lambda>(u, v). u * v) (zip (expand_to s a) (expand_to s b))"
    by (auto simp: tmul_def pointwise_def split: option.splits)
  have "u * w = 0" if "(u, w) \<in> set (zip (expand_to s a) (expand_to s b))" for u w
    using expand_to_zero [OF assms(1), of u s] set_zip_leftD [OF that] by simp
  then show ?thesis
    unfolding zero_tensor_def list_all_iff v by auto
qed

lemma zero_tadd:
  assumes "zero_tensor a" and "zero_tensor b" and "tadd a b = Inr v"
  shows "zero_tensor v"
proof -
  from assms(3) obtain s where
    v: "elems v = map (\<lambda>(u, v). u + v) (zip (expand_to s a) (expand_to s b))"
    by (auto simp: tadd_def pointwise_def split: option.splits)
  have "u + w = 0" if "(u, w) \<in> set (zip (expand_to s a) (expand_to s b))" for u w
    using expand_to_zero [OF assms(1), of u s] expand_to_zero [OF assms(2), of w s]
      set_zip_leftD [OF that] set_zip_rightD [OF that] by simp
  then show ?thesis
    unfolding zero_tensor_def list_all_iff v by auto
qed

lemma zero_mul_weight: "zero_tensor t \<Longrightarrow> mul_weight t w = Inr v \<Longrightarrow> zero_tensor v"
  by (cases w) (auto simp: mul_weight_def zero_scale zero_tmul)


lemma lookup_zero:
  "list_all (\<lambda>(name, l). zero_linear l) zbs \<Longrightarrow> lookup zbs name = Inr l \<Longrightarrow> zero_linear l"
  by (auto simp: lookup_def list_all_iff split: option.splits dest!: map_of_SomeD)

lemma zero_weighted:
  assumes "zero_tensor v0"
    and "bindE (mul_weight v0 cw) (\<lambda>v1. bindE (mul_weight v1 coin) (\<lambda>v2. Inr (scale v2 g))) = Inr v"
  shows "zero_tensor v"
  using assms by (auto simp: bindE_eq_Inr intro!: zero_scale dest: zero_mul_weight)

lemma zero_mapped:
  assumes "zero_tensor v0"
    and "bindE wm (\<lambda>weight_map. bindE (tmul v0 weight_map) (\<lambda>v1.
           bindE (mul_weight v1 coin) (\<lambda>v2. Inr (scale v2 g)))) = Inr v"
  shows "zero_tensor v"
  using assms by (auto simp: bindE_eq_Inr intro!: zero_scale dest: zero_mul_weight zero_tmul)

lemma hint_val_zero:
  assumes "list_all (\<lambda>(name, l). zero_linear l) zbs"
    and "hint_val E m cx zbs dims i idx name x = Inr v"
  shows "zero_tensor v"
proof -
  from assms(2) obtain gate cw scalar zb where zb: "lookup zbs name = Inr zb"
    and body: "(if scalar
       then bindE (linear_apply zb x) (\<lambda>v0.
            bindE (mul_weight v0 cw) (\<lambda>v1.
            bindE (mul_weight v1 (cx_coin_flip cx)) (\<lambda>v2.
              Inr (scale v2 (if gate then 1 else 0)))))
       else bindE (linear_apply zb x) (\<lambda>control_feat.
            bindE (block0_format (blocks m)) (\<lambda>fmt.
              if fmt = ''THWBD''
              then bindE (case cw of W_Tensor wm \<Rightarrow> weight_map_tokens E m dims wm
                                   | _ \<Rightarrow> Inl AttributeError) (\<lambda>weight_map.
                   bindE (tmul control_feat weight_map) (\<lambda>v1.
                   bindE (mul_weight v1 (cx_coin_flip cx)) (\<lambda>v2.
                     Inr (scale v2 (if gate then 1 else 0)))))
              else Inl NotImplementedError))) = Inr v"
    unfolding hint_val_def bindE_eq_Inr by blast
  from lookup_zero [OF assms(1) zb] have z: "zero_linear zb" .
  show ?thesis
  proof (cases scalar)
    case True
    with body obtain v0 where "linear_apply zb x = Inr v0"
      and "bindE (mul_weight v0 cw) (\<lambda>v1. bindE (mul_weight v1 (cx_coin_flip cx))
             (\<lambda>v2. Inr (scale v2 (if gate then 1 else 0)))) = Inr v"
      by (auto simp: bindE_eq_Inr)
    then show ?thesis
      using linear_apply_zero [OF z] zero_weighted by blast
  next
    case False
    with body obtain v0 fmt where v0: "linear_apply zb x = Inr v0"
      and "(if fmt = ''THWBD''
              then bindE (case cw of W_Tensor wm \<Rightarrow> weight_map_tokens E m dims wm
                                   | _ \<Rightarrow> Inl AttributeError) (\<lambda>weight_map.
                   bindE (tmul v0 weight_map) (\<lambda>v1.
                   bindE (mul_weight v1 (cx_coin_flip cx)) (\<lambda>v2.
                     Inr (scale v2 (if gate then 1 else 0)))))
              else Inl NotImplementedError) = Inr v"
      by (auto simp: bindE_eq_Inr)
    then have "bindE (case cw of W_Tensor wm \<Rightarrow> weight_map_tokens E m dims wm
                                   | _ \<Rightarrow> Inl AttributeError) (\<lambda>weight_map.
                   bindE (tmul v0 weight_map) (\<lambda>v1.
                   bindE (mul_weight v1 (cx_coin_flip cx)) (\<lambda>v2.
                     Inr (scale v2 (if gate then 1 else 0))))) = Inr v"
      by (cases "fmt = ''THWBD''") simp_all
    then show ?thesis
      using linear_apply_zero [OF z v0] zero_mapped by blast
  qed
qed


lemma hoareI: "(\<And>s v s'. P s \<Longrightarrow> p s = (Inr v, s') \<Longrightarrow> Q v s') \<Longrightarrow> hoare P p Q"
  unfolding hoare_def by blast

lemma hoareD: "hoare P p Q \<Longrightarrow> P s \<Longrightarrow> p s = (Inr v, s') \<Longrightarrow> Q v s'"
  unfolding hoare_def by blast

lemma hoare_bind:
  assumes "hoare P p R" and "\<And>v. hoare (R v) (f v) Q"
  shows "hoare P (bind p f) Q"
proof (rule hoareI)
  fix s v s'
  assume P: "P s" and run: "bind p f s = (Inr v, s')"
  obtain r s1 where p: "p s = (r, s1)"
    by (cases "p s")
  with run obtain u where u: "r = Inr u" and f: "f u s1 = (Inr v, s')"
    by (cases r) (auto simp: bind_def)
  from hoareD [OF assms(1) P] p u have "R u s1"
    by simp
  from hoareD [OF assms(2) this f] show "Q v s'" .
qed

lemma hoare_lift: "(\<And>v s. r = Inr v \<Longrightarrow> P s \<Longrightarrow> Q v s) \<Longrightarrow> hoare P (lift r) Q"
  by (auto simp: hoare_def)

lemma hoare_ret: "(\<And>s. P s \<Longrightarrow> Q v s) \<Longrightarrow> hoare P (ret v) Q"
  by (auto simp: hoare_def)

lemma hoare_get_self: "(\<And>s. P s \<Longrightarrow> Q (self s) s) \<Longrightarrow> hoare P get_self Q"
  by (auto simp: hoare_def)

lemma hoare_modify_self:
  "(\<And>s. P s \<Longrightarrow> Q () (s\<lparr>self := g (self s)\<rparr>)) \<Longrightarrow> hoare P (modify_self g) Q"
  by (auto simp: hoare_def)

lemma hoare_weaken:
  "hoare P' p Q' \<Longrightarrow> (\<And>s. P s \<Longrightarrow> P' s) \<Longrightarrow> (\<And>v s. Q' v s \<Longrightarrow> Q v s) \<Longrightarrow> hoare P p Q"
  unfolding hoare_def by blast

lemma hoare_conj: "hoare P p Q \<Longrightarrow> hoare P p R \<Longrightarrow> hoare P p (\<lambda>v s. Q v s \<and> R v s)"
  by (auto simp: hoare_def)

lemma hoare_unchanged:
  "unchanged f p \<Longrightarrow> hoare (\<lambda>s. f s = c) p (\<lambda>v s. f s = c)"
  by (auto simp: hoare_def unchanged_def) (metis snd_conv)

lemma accumulate_zero:
  assumes "all_zero outs" and "zero_tensor v" and "accumulate outs name v = Inr outs'"
  shows "all_zero outs'"
proof (cases "map_of outs name")
  case None
  with assms show ?thesis
    by (auto simp: accumulate_def all_zero_def)
next
  case (Some old)
  with assms(1) have old: "zero_tensor old"
    by (auto simp: all_zero_def list_all_iff dest!: map_of_SomeD)
  from Some assms(3) obtain new where new: "tadd old v = Inr new"
    and outs': "outs' = dict_set outs name new"
    by (auto simp: accumulate_def bindE_eq_Inr split: if_splits)
  from zero_tadd [OF old assms(2) new] assms(1) show ?thesis
    by (auto simp: outs' all_zero_def list_all_iff dict_set_def split: if_splits)
qed

lemma block_step_zero:
  assumes "list_all (\<lambda>(name, l). zero_linear l) zbs" and "all_zero (ls_outs st)"
    and "block_step E m cx bs zbs inputs dims i entry st = Inr st'"
  shows "all_zero (ls_outs st')"
  using assms(3)
  by (cases entry)
    (auto simp: block_step_def bindE_eq_Inr
      dest!: hint_val_zero [OF assms(1)] dest: accumulate_zero [OF assms(2)])

lemma block_loop_zero:
  assumes "list_all (\<lambda>(name, l). zero_linear l) zbs"
  shows "all_zero (ls_outs st) \<Longrightarrow> block_loop E m cx bs zbs inputs dims i entries st = Inr st'
         \<Longrightarrow> all_zero (ls_outs st')"
proof (induction entries arbitrary: st)
  case Nil
  then show ?case by simp
next
  case (Cons entry entries)
  from Cons.prems(2) obtain st1 where
    "block_step E m cx bs zbs inputs dims i entry st = Inr st1"
    and "block_loop E m cx bs zbs inputs dims i entries st1 = Inr st'"
    by (auto simp: bindE_eq_Inr)
  with Cons.IH [of st1] block_step_zero [OF assms Cons.prems(1)] show ?case
    by blast
qed


lemma bind_eq_Inr:
  "bind p f s = (Inr v, s') \<longleftrightarrow> (\<exists>u s1. p s = (Inr u, s1) \<and> f u s1 = (Inr v, s'))"
proof (cases "p s")
  case (Pair r s1)
  then show ?thesis by (cases r) (auto simp: bind_def)
qed

lemma select_source_zero:
  assumes "zero_projections (self s)" and "select_source i s = (Inr (bs, zbs, t, n), s1)"
  shows "list_all (\<lambda>(name, l). zero_linear l) zbs"
  using assms
  by (auto simp: select_source_def bind_eq_Inr zero_projections_def index_def list_all_iff
      split: option.splits if_splits)

lemma source_pass_zero:
  assumes "zero_projections (self s)" and "all_zero outs"
    and "source_pass E a cx src (dims, outs) s = (Inr (dims', outs'), s')"
  shows "all_zero outs'"
proof -
  obtain i guided_hint where src: "src = (i, guided_hint)"
    by (cases src)
  from assms(3) obtain bs zbs t n s1 m inputs dims1 x2 st where
    sel: "select_source i s = (Inr (bs, zbs, t, n), s1)"
    and loop: "block_loop E m cx bs zbs inputs dims1 i (enumerate_items bs)
                 \<lparr>ls_x = x2, ls_guided_hint = Some guided_hint, ls_outs = outs\<rparr> = Inr st"
    and outs': "outs' = ls_outs st"
    unfolding source_pass_def src
    by (auto simp: bind_eq_Inr split: prod.splits)
  from block_loop_zero [OF select_source_zero [OF assms(1) sel] _ loop] assms(2) outs'
  show ?thesis by simp
qed

lemma unchanged_run: "unchanged f p \<Longrightarrow> p s = (r, s') \<Longrightarrow> f s' = f s"
  using unchangedD [of f p s] by simp

lemma settings_fields:
  assumes "settings m' = settings m"
  shows "zero_blocks m' = zero_blocks m" "hint_encoders m' = hint_encoders m"
    "blocks m' = blocks m" "layer_mask m' = layer_mask m"
    "random_drop_control_blocks m' = random_drop_control_blocks m"
    "hint_channels m' = hint_channels m" "dropout_ctrl_branch m' = dropout_ctrl_branch m"
    "sequence_parallel m' = sequence_parallel m"
proof -
  have "zero_blocks (settings m') = zero_blocks (settings m)"
    "hint_encoders (settings m') = hint_encoders (settings m)"
    "blocks (settings m') = blocks (settings m)"
    "layer_mask (settings m') = layer_mask (settings m)"
    "random_drop_control_blocks (settings m') = random_drop_control_blocks (settings m)"
    "hint_channels (settings m') = hint_channels (settings m)"
    "dropout_ctrl_branch (settings m') = dropout_ctrl_branch (settings m)"
    "sequence_parallel (settings m') = sequence_parallel (settings m)"
    using assms by simp_all
  then show "zero_blocks m' = zero_blocks m" "hint_encoders m' = hint_encoders m"
    "blocks m' = blocks m" "layer_mask m' = layer_mask m"
    "random_drop_control_blocks m' = random_drop_control_blocks m"
    "hint_channels m' = hint_channels m" "dropout_ctrl_branch m' = dropout_ctrl_branch m"
    "sequence_parallel m' = sequence_parallel m"
    by (simp_all add: settings_def)
qed

lemma zero_projections_kept:
  assumes "kept s' = kept s"
  shows "zero_projections (self s') = zero_projections (self s)"
proof -
  from assms have "settings (self s') = settings (self s)"
    by (simp add: kept_def)
  from settings_fields(1,2) [OF this] show ?thesis
    by (simp add: zero_projections_def)
qed

lemma sources_loop_zero:
  "zero_projections (self s) \<Longrightarrow> all_zero outs
   \<Longrightarrow> sources_loop E a cx srcs (dims, outs) s = (Inr (dims', outs'), s')
   \<Longrightarrow> all_zero outs'"
proof (induction srcs arbitrary: s dims outs)
  case Nil
  then show ?case by simp
next
  case (Cons src srcs)
  from Cons.prems(3) obtain dims1 outs1 s1 where
    pass: "source_pass E a cx src (dims, outs) s = (Inr (dims1, outs1), s1)"
    and rest: "sources_loop E a cx srcs (dims1, outs1) s1 = (Inr (dims', outs'), s')"
    by (auto simp: bind_eq_Inr)
  from zero_projections_kept [OF unchanged_run [OF kept_source_pass pass]] Cons.prems(1)
  have "zero_projections (self s1)"
    by simp
  from Cons.IH [OF this source_pass_zero [OF Cons.prems(1,2) pass] rest] show ?case .
qed


lemma hoare_case_prod:
  "(\<And>a b. hoare P (f a b) Q) \<Longrightarrow> hoare P (case v of (a, b) \<Rightarrow> f a b) Q"
  by (cases v) simp

lemma hoare_kept:
  assumes "unchanged kept p"
  shows "hoare (\<lambda>s. zero_projections (self s)) p (\<lambda>v s. zero_projections (self s))"
proof (rule hoareI)
  fix s v s'
  assume "zero_projections (self s)" and "p s = (Inr v, s')"
  with zero_projections_kept [OF unchanged_run [OF assms], of s "Inr v" s']
  show "zero_projections (self s')"
    by simp
qed

lemma hoare_sources_zero:
  "hoare (\<lambda>s. zero_projections (self s))
     (bind (sources_loop E a cx srcs (dims, [])) (\<lambda>(_, outs). ret outs))
     (\<lambda>outs s. all_zero outs)"
  by (rule hoareI)
    (auto simp: bind_eq_Inr all_zero_def dest!: sources_loop_zero [rotated 2])

lemma control_outs_zero:
  assumes "zero_projections (self s)" and "control_outs E a hint s = (Inr outs, s')"
  shows "all_zero outs"
proof -
  have "hoare (\<lambda>s. zero_projections (self s)) (control_outs E a hint) (\<lambda>outs s. all_zero outs)"
    unfolding control_outs_def
    by (rule hoare_sources_zero hoare_case_prod
        hoare_bind [where R = "\<lambda>v s. zero_projections (self s)"]
        hoare_kept kept_encode_hints kept_coin_flip kept_control_gates kept_crossattn
        unchanged_lift unchanged_get_self)+
  from hoareD [OF this assms] show ?thesis .
qed

lemma sequential_zero:
  "zero_final_layer ls \<Longrightarrow> sequential ls t = Inr g \<Longrightarrow> zero_tensor g"
proof (induction ls arbitrary: t)
  case Nil
  then show ?case by (simp add: zero_final_layer_def)
next
  case (Cons l ls)
  show ?case
  proof (cases ls)
    case Nil
    with Cons.prems show ?thesis
      by (cases l) (auto simp: zero_final_layer_def bindE_eq_Inr split: sum.splits
          dest: linear_apply_zero)
  next
    case (Cons l' ls')
    then have "rev (l # ls) = (rev ls' @ [l']) @ [l]"
      by simp
    then have "zero_final_layer ls"
      using Cons.prems(1) Cons
      by (cases "rev ls'") (simp_all add: zero_final_layer_def)
    with Cons.IH Cons.prems(2) show ?thesis
      by (auto split: sum.splits)
  qed
qed

lemma encode_hint_zero:
  "zero_final_layer (input_hint_block m) \<Longrightarrow> encode_hint E m hint fps pm dt = Inr g
   \<Longrightarrow> zero_tensor g"
  by (auto simp: encode_hint_def bindE_eq_Inr dest: sequential_zero)

lemma build_zero_blocks_zero:
  "build_zero_blocks c mc lm idxs = Inr zbs \<Longrightarrow> list_all (\<lambda>(name, l). zero_linear l) zbs"
proof (induction idxs arbitrary: zbs)
  case Nil
  then show ?case by simp
next
  case (Cons idx idxs)
  then show ?case
    by (auto simp: bindE_eq_Inr zero_linear_zero_module split: if_splits)
qed

lemma add_zeros:
  "length zs = length xs \<Longrightarrow> list_all (\<lambda>v. v = (0::real)) zs
   \<Longrightarrow> map (\<lambda>(u, v). u + v) (zip xs zs) = xs"
  by (induction xs zs rule: list_induct2') simp_all

lemma add_control_zero:
  assumes "zero_tensor z" and "add_control h z = Inr h'"
  shows "h' = h"
proof -
  from assms(2) have len: "length (elems z) = length (elems h)"
    and h': "h' = h\<lparr>elems := map (\<lambda>(u, v). u + v) (zip (elems h) (elems z))\<rparr>"
    by (auto simp: add_control_def split: if_splits)
  from assms(1) have "list_all (\<lambda>v. v = 0) (elems z)"
    by (simp add: zero_tensor_def)
  with len have "map (\<lambda>(u, v). u + v) (zip (elems h) (elems z)) = elems h"
    by (rule add_zeros)
  with h' show ?thesis by simp
qed

lemma backbone_blocks_zero:
  assumes "all_zero outs"
  shows "backbone_blocks bs c (Some outs) h = Inr out \<Longrightarrow> backbone_blocks bs c None h = Inr out"
proof (induction bs arbitrary: h)
  case Nil
  then show ?case by simp
next
  case (Cons b bs)
  obtain name blk where b: "b = (name, blk)"
    by (cases b)
  from Cons.prems obtain h1 h2 where h1: "blk h c = Inr h1"
    and h2: "(case map_of outs name of None \<Rightarrow> Inr h1 | Some v \<Rightarrow> add_control h1 v) = Inr h2"
    and rest: "backbone_blocks bs c (Some outs) h2 = Inr out"
    by (auto simp: b bindE_eq_Inr)
  have "h2 = h1"
  proof (cases "map_of outs name")
    case None
    with h2 show ?thesis by simp
  next
    case (Some v)
    with assms have "zero_tensor v"
      by (auto simp: all_zero_def list_all_iff dest!: map_of_SomeD)
    with Some h2 show ?thesis
      by (auto dest: add_control_zero)
  qed
  with Cons.IH rest h1 show ?case
    by (simp add: b)
qed

lemma backbone_forward_zero:
  assumes "all_zero outs" and "backbone_forward bb (c\<lparr>bc_x_ctrl := Some outs\<rparr>) = Inr out"
  shows "backbone_forward bb (c\<lparr>bc_x_ctrl := None\<rparr>) = Inr out"
  using assms(2)
  by (auto simp: backbone_forward_def Let_def bindE_eq_Inr dest!: backbone_blocks_zero [OF assms(1)])

lemma init_zero:
  assumes "init c inc is_extend kw = Inr m"
  shows "zero_projections m" and "zero_final_layer (input_hint_block m)"
    and "hint_encoders m = None"
proof -
  from assms obtain kw1 base zbs where
    zbs: "build_zero_blocks c (model_channels base)
            (layer_mask (encoder_before_weights c base is_extend kw kw1)) [0..<num_blocks base]
          = Inr zbs"
    and m: "m = (run_init_weights c (encoder_before_weights c base is_extend kw kw1))
              \<lparr>zero_blocks := zbs,
               input_hint_block :=
                 input_hint_block (run_init_weights c (encoder_before_weights c base is_extend kw kw1))
                 @ [Linear (zero_module
                      (nn_Linear c (8 + num_blocks base) (last hint_nf) (model_channels base)))]\<rparr>"
    unfolding init_def Let_def bindE_eq_Inr by auto
  have none: "hint_encoders (run_init_weights c (encoder_before_weights c base is_extend kw kw1)) = None"
    by (simp add: run_init_weights_def Let_def encoder_before_weights_def general_dit.defs model.defs)
  show "hint_encoders m = None"
    by (simp add: m none)
  show "zero_projections m"
    using build_zero_blocks_zero [OF zbs] by (simp add: m zero_projections_def none)
  show "zero_final_layer (input_hint_block m)"
    by (simp add: m zero_final_layer_def zero_linear_zero_module)
qed

section \<open>Constructing the small instance\<close>

lemma dot_replicate: "dot (replicate n w) (replicate n v) = real n * (w * v)"
  by (induction n) (simp_all add: dot_def algebra_simps)

lemma chunks_one: "chunks (Suc 0) n xs = [take n xs]"
  by simp

lemma linear_row:
  "linear_apply (const_linear i o' w b) (row i v) = Inr (row o' (real i * (w * v) + b))"
  by (simp add: linear_apply_def const_linear_def row_def numel_def dot_replicate
      zip_replicate)

lemma linear_row_layer:
  "layer_apply (Linear (const_linear i o' w b)) (row i v) = Inr (row o' (real i * (w * v) + b))"
  by (simp add: linear_row)

lemma silu_row: "layer_apply SiLU (row n v) = Inr (row n (silu v))"
  by (simp add: row_def)

lemma zero_module_const: "zero_module (const_linear i o' w b) = const_linear i o' 0 0"
  by (simp add: zero_module_def const_linear_def)

lemma const_linear_one: "const_linear (Suc 0) (Suc 0) w b = example_linear w b"
  by (simp add: const_linear_def example_linear_def)

lemma row_one: "row (Suc 0) v = pixel v"
  by (simp add: row_def pixel_def)

lemma example_cascade:
  "build_input_hint_block example_construction (Suc 0) =
     [Linear (const_linear 1 16 1 0), SiLU, Linear (const_linear 16 16 1 0), SiLU,
      Linear (const_linear 16 32 1 0), SiLU, Linear (const_linear 32 32 1 0), SiLU,
      Linear (const_linear 32 96 1 0), SiLU, Linear (const_linear 96 96 1 0), SiLU,
      Linear (const_linear 96 256 1 0), SiLU]"
  by (simp add: build_input_hint_block_def hint_nf_def example_construction_def upt_rec)


lemma example_cascade_run:
  "sequential (build_input_hint_block example_construction (Suc 0)
                 @ [Linear (zero_module (const_linear 256 (Suc 0) 1 0))]) (pixel v) = Inr (pixel 0)"
  by (simp add: example_cascade zero_module_const linear_row_layer silu_row
      row_one [symmetric] del: layer_apply.simps)

section \<open>The layer mask and the index of its first \<open>True\<close>\<close>

lemma list_index_prefix:
  "list_index (replicate k False @ xs) True = bindE (list_index xs True) (\<lambda>i. Inr (k + i))"
  by (induction k) (simp_all add: bindE_def split: sum.splits)

lemma list_index_all_true: "list_index (replicate k True) True = (if k = 0 then Inl ValueError else Inr 0)"
  by (cases k) simp_all

lemma list_index_all_false: "list_index (replicate k False) True = Inl ValueError"
  by (induction k) simp_all

lemma init_layer_mask:
  assumes "init c inc ext kw = Inr m" and "kw_num_control_blocks kw = Some n"
    and "kw_num_blocks kw = Some nb"
  shows "0 < n" and "n \<le> nb"
    and "layer_mask m = replicate (nat n) False @ replicate (nat (nb - n)) True"
proof -
  from assms obtain kw1 base zbs where
    kw1: "mask_kwargs kw = Inr kw1"
    and m: "m = (run_init_weights c (encoder_before_weights c base ext kw kw1))
              \<lparr>zero_blocks := zbs,
               input_hint_block :=
                 input_hint_block (run_init_weights c (encoder_before_weights c base ext kw kw1))
                 @ [Linear (zero_module
                      (nn_Linear c (8 + num_blocks base) (last hint_nf) (model_channels base)))]\<rparr>"
    unfolding init_def Let_def bindE_eq_Inr by auto
  from kw1 assms(2,3) show "0 < n" and "n \<le> nb"
    by (auto simp: mask_kwargs_def split: if_splits)
  from kw1 assms(2,3)
  have "kw_layer_mask kw1 = Some (replicate (nat n) False @ replicate (nat (nb - n)) True)"
    by (auto simp: mask_kwargs_def split: if_splits)
  then show "layer_mask m = replicate (nat n) False @ replicate (nat (nb - n)) True"
    by (simp add: m run_init_weights_def Let_def encoder_before_weights_def general_dit.defs
        model.defs)
qed

lemma hoare_mask:
  assumes "unchanged kept p"
  shows "hoare (\<lambda>s. layer_mask (self s) = lm) p (\<lambda>v s. layer_mask (self s) = lm)"
proof (rule hoareI)
  fix s v s'
  assume lm: "layer_mask (self s) = lm" and run: "p s = (Inr v, s')"
  from unchanged_run [OF assms run] have "settings (self s') = settings (self s)"
    by (simp add: kept_def)
  from settings_fields(4) [OF this] lm show "layer_mask (self s') = lm"
    by simp
qed

lemma hoare_gates_fail:
  assumes "list_index lm True = Inl e"
  shows "hoare (\<lambda>s. layer_mask (self s) = lm) (bind (control_gates E a) f) Q"
  using assms by (auto simp: hoare_def bind_eq_Inr control_gates_def)

lemma control_outs_no_true:
  assumes "list_index (layer_mask (self s)) True = Inl e"
  shows "control_outs E a hint s \<noteq> (Inr outs, s')"
proof
  assume run: "control_outs E a hint s = (Inr outs, s')"
  have "hoare (\<lambda>s'. layer_mask (self s') = layer_mask (self s)) (control_outs E a hint)
          (\<lambda>outs s. False)"
    unfolding control_outs_def
    by (rule hoare_gates_fail [OF assms] hoare_case_prod
        hoare_bind [where R = "\<lambda>v s'. layer_mask (self s') = layer_mask (self s)"]
        hoare_mask kept_encode_hints kept_coin_flip kept_crossattn
        unchanged_lift unchanged_get_self)+
  from hoareD [OF this _ run] show False
    by simp
qed

lemma forward_no_true:
  assumes "list_index (layer_mask (self s)) True = Inl e"
    and "a_hint_key a = Some k" and "a_kwargs a k = Some (PyTensor h)"
  shows "fst (forward E a s) \<noteq> Inr y"
proof
  assume "fst (forward E a s) = Inr y"
  then obtain s' where "forward E a s = (Inr y, s')"
    by (cases "forward E a s") simp
  with assms(2,3) show False
    by (auto simp: forward_def pop_hint_def bind_eq_Inr control_outs_no_true [OF assms(1)])
qed

lemma control_gates_no_true:
  "list_index (layer_mask (self s)) True = Inl e \<Longrightarrow> control_gates E a s = (Inl e, s)"
  by (simp add: control_gates_def bind_def)

text \<open>
  C7. An object constructed with \<^verbatim>\<open>num_control_blocks\<close> \<open>= n\<close> and \<^verbatim>\<open>num_blocks\<close> \<open>= nb\<close> passed
  the assertion of line 59, \<open>0 < n \<le> nb\<close>, and its layer mask is \<open>n\<close> times \<open>False\<close> followed
  by \<open>nb - n\<close> times \<open>True\<close>. For \<open>n < nb\<close> the index of the first \<open>True\<close> is \<open>n\<close>. For \<open>n = nb\<close>,
  which the assertion admits, the mask holds no \<open>True\<close>: \<^verbatim>\<open>layer_mask.index(True)\<close> of line 297
  raises ValueError, and no call of \<^verbatim>\<open>forward\<close> with a hint tensor returns.
\<close>

theorem layer_mask_derivation:
  assumes "init c inc ext kw = Inr m" and "kw_num_control_blocks kw = Some n"
    and "kw_num_blocks kw = Some nb"
  shows "0 < n \<and> n \<le> nb
     \<and> layer_mask m = replicate (nat n) False @ replicate (nat (nb - n)) True
     \<and> (n < nb \<longrightarrow> list_index (layer_mask m) True = Inr (nat n))
     \<and> (n = nb \<longrightarrow>
          list_index (layer_mask m) True = Inl ValueError
          \<and> (\<forall>E a s. self s = m \<longrightarrow> control_gates E a s = (Inl ValueError, s))
          \<and> (\<forall>E a s k h y. self s = m \<and> a_hint_key a = Some k \<and> a_kwargs a k = Some (PyTensor h)
                \<longrightarrow> fst (forward E a s) \<noteq> Inr y))"
proof -
  note lm = init_layer_mask [OF assms]
  have lt: "list_index (layer_mask m) True = Inr (nat n)" if "n < nb"
  proof -
    from that have "0 < nat (nb - n)" by simp
    then show ?thesis
      by (simp add: lm(3) list_index_prefix list_index_all_true)
  qed
  have eq: "list_index (layer_mask m) True = Inl ValueError" if "n = nb"
    using that by (simp add: lm(3) list_index_all_false)
  have cg: "control_gates E a s = (Inl ValueError, s)" if "n = nb" and "self s = m" for E a s
    using eq that by (simp add: control_gates_no_true)
  have fw: "fst (forward E a s) \<noteq> Inr y"
    if "n = nb" and "self s = m" and "a_hint_key a = Some k" and "a_kwargs a k = Some (PyTensor h)"
    for E a s k h y
    using forward_no_true [of s ValueError a k h E y] eq that by simp
  show ?thesis
    using lm lt eq cg fw by blast
qed

lemma example_init_all_control:
  "\<exists>m. init example_construction 1 False (example_kwargs\<lparr>kw_num_control_blocks := Some 3\<rparr>) = Inr m"
  by (simp add: init_def mask_kwargs_def example_kwargs_def example_construction_def Let_def
      parent_kwargs_def example_dit_def encoder_before_weights_def general_dit.defs model.defs
      upt_rec index_def run_init_weights_def eval_nat_numeral)

theorem layer_mask_derivation_witness:
  "\<exists>m. init example_construction 1 False (example_kwargs\<lparr>kw_num_control_blocks := Some 3\<rparr>) = Inr m
     \<and> kw_num_control_blocks (example_kwargs\<lparr>kw_num_control_blocks := Some 3\<rparr>) = Some 3
     \<and> kw_num_blocks (example_kwargs\<lparr>kw_num_control_blocks := Some 3\<rparr>) = Some 3
     \<and> layer_mask m = [False, False, False]
     \<and> list_index (layer_mask m) True = Inl ValueError
     \<and> control_gates example_env example_call (example_state m) = (Inl ValueError, example_state m)
     \<and> (\<forall>y. fst (forward example_env example_call (example_state m)) \<noteq> Inr y)"
proof -
  from example_init_all_control obtain m where
    m: "init example_construction 1 False (example_kwargs\<lparr>kw_num_control_blocks := Some 3\<rparr>) = Inr m"
    by blast
  have kw: "kw_num_control_blocks (example_kwargs\<lparr>kw_num_control_blocks := Some 3\<rparr>) = Some 3"
    "kw_num_blocks (example_kwargs\<lparr>kw_num_control_blocks := Some 3\<rparr>) = Some 3"
    by (simp_all add: example_kwargs_def)
  have call: "a_hint_key example_call = Some ''hint''"
    "a_kwargs example_call ''hint'' = Some (PyTensor (pixel 0))"
    by (simp_all add: example_call_def)
  have st: "self (example_state m) = m"
    by (simp add: example_state_def)
  note th = layer_mask_derivation [OF m kw]
  from th have lm: "layer_mask m = replicate (nat 3) False @ replicate (nat (3 - 3)) True"
    by blast
  from th have ix: "list_index (layer_mask m) True = Inl ValueError"
    by blast
  from th st
  have cg: "control_gates example_env example_call (example_state m) = (Inl ValueError, example_state m)"
    by blast
  from th st call have fw: "\<forall>y. fst (forward example_env example_call (example_state m)) \<noteq> Inr y"
    by blast
  from lm have "layer_mask m = [False, False, False]"
    by (simp add: eval_nat_numeral)
  with m kw ix cg fw show ?thesis
    by blast
qed

section \<open>The branch-dropout gate\<close>

lemma scale_one: "scale t 1 = t"
  by (simp add: scale_def)

text \<open>
  C5. For a call with a base model, the gate \<^verbatim>\<open>coin_flip\<close> is the number \<open>1\<close> (by which a
  contribution is multiplied unchanged) and the state, with the count of numbers drawn from
  torch's generator, is as before, unless autograd is on and a parameter of the base model
  requires a gradient. Only then are \<open>B\<close> numbers drawn, one for each batch element, and
  the gate of element \<open>j\<close> is \<open>1\<close> when its number exceeds \<^verbatim>\<open>dropout_ctrl_branch\<close> and \<open>0\<close>
  otherwise; nothing else of the state changes. Without a base model line 289 raises
  AttributeError and draws nothing.
\<close>

theorem branch_dropout_gate:
  "(\<forall>bm. a_base_model a = Some bm \<and>
          \<not> (is_grad_enabled E \<and> list_ex (\<lambda>g. g) (parameters_requires_grad bm)) \<longrightarrow>
       coin_flip E a B s = (Inr (W_Num 1), s) \<and> (\<forall>t. mul_weight t (W_Num 1) = Inr t))
   \<and> (\<forall>bm. a_base_model a = Some bm \<and> is_grad_enabled E
            \<and> list_ex (\<lambda>g. g) (parameters_requires_grad bm) \<longrightarrow>
         snd (coin_flip E a B s) = s\<lparr>torch_draws := torch_draws s + B\<rparr>
         \<and> (\<forall>fmt. block0_format (blocks (self s)) = Inr fmt \<longrightarrow>
               fst (coin_flip E a B s)
                 = Inr (W_Tensor \<lparr>shape = (if fmt = ''THWBD'' then [1, 1, 1, B, 1]
                                           else if fmt = ''BTHWD'' then [B, 1, 1, 1, 1] else [B]),
                         elems = map (\<lambda>j. if torch_rand E (torch_draws s + j) > dropout_ctrl_branch (self s)
                                          then 1 else 0) [0..<B]\<rparr>)))
   \<and> (a_base_model a = None \<longrightarrow> coin_flip E a B s = (Inl AttributeError, s))"
proof -
  have m: "map (\<lambda>r. if dropout_ctrl_branch (self s) < r then 1 else (0::real))
             (map (torch_rand E) [torch_draws s..<torch_draws s + B])
           = map (\<lambda>j. if torch_rand E (torch_draws s + j) > dropout_ctrl_branch (self s)
                        then 1 else 0) [0..<B]"
  proof -
    have "[torch_draws s..<torch_draws s + B] = map (\<lambda>j. torch_draws s + j) [0..<B]"
      using map_add_upt [of "torch_draws s" B] by (simp add: add.commute)
    then show ?thesis
      by (simp add: o_def)
  qed
  show ?thesis
    using m
    by (cases "block0_format (blocks (self s))")
      (auto simp: coin_flip_def bind_def torch_rand_draw_def Let_def mul_weight_def scale_one)
qed

theorem branch_dropout_gate_witness:
  "(a_base_model example_call = Some example_base
    \<and> \<not> (is_grad_enabled (example_env\<lparr>is_grad_enabled := True\<rparr>)
           \<and> list_ex (\<lambda>g. g) (parameters_requires_grad example_base))
    \<and> coin_flip (example_env\<lparr>is_grad_enabled := True\<rparr>) example_call 2 (example_state trained_model)
        = (Inr (W_Num 1), example_state trained_model)
    \<and> mul_weight (pixel 3) (W_Num 1) = Inr (pixel 3))
   \<and> (a_base_model (example_call\<lparr>a_base_model := Some (example_base\<lparr>parameters_requires_grad := [False, True]\<rparr>)\<rparr>)
        = Some (example_base\<lparr>parameters_requires_grad := [False, True]\<rparr>)
    \<and> is_grad_enabled (example_env\<lparr>is_grad_enabled := True, torch_rand := (\<lambda>k. if k = 0 then 1 / 4 else 3 / 4)\<rparr>)
    \<and> list_ex (\<lambda>g. g) (parameters_requires_grad (example_base\<lparr>parameters_requires_grad := [False, True]\<rparr>))
    \<and> block0_format (blocks (self (example_state trained_model))) = Inr ''THWBD''
    \<and> coin_flip (example_env\<lparr>is_grad_enabled := True, torch_rand := (\<lambda>k. if k = 0 then 1 / 4 else 3 / 4)\<rparr>)
          (example_call\<lparr>a_base_model := Some (example_base\<lparr>parameters_requires_grad := [False, True]\<rparr>)\<rparr>)
          2 (example_state trained_model)
        = (Inr (W_Tensor \<lparr>shape = [1, 1, 1, 2, 1], elems = [0, 1]\<rparr>),
           (example_state trained_model)\<lparr>torch_draws := 2\<rparr>))
   \<and> (a_base_model (example_call\<lparr>a_base_model := None\<rparr>) = None
    \<and> coin_flip example_env (example_call\<lparr>a_base_model := None\<rparr>) 2 (example_state trained_model)
        = (Inl AttributeError, example_state trained_model))"
proof -
  have fmt: "block0_format (blocks (self (example_state trained_model))) = Inr ''THWBD''"
    by (simp add: block0_format_def lookup_def example_defs example_block_def)
  have dr: "dropout_ctrl_branch (self (example_state trained_model)) = 1 / 2"
    "torch_draws (example_state trained_model) = 0"
    by (simp_all add: example_defs)
  let ?E = "example_env\<lparr>is_grad_enabled := True, torch_rand := (\<lambda>k. if k = 0 then 1 / 4 else 3 / 4)\<rparr>"
  let ?a = "example_call\<lparr>a_base_model := Some (example_base\<lparr>parameters_requires_grad := [False, True]\<rparr>)\<rparr>"
  from branch_dropout_gate [of ?a ?E 2 "example_state trained_model"] fmt dr
  have joint: "coin_flip ?E ?a 2 (example_state trained_model)
        = (Inr (W_Tensor \<lparr>shape = [1, 1, 1, 2, 1], elems = [0, 1]\<rparr>),
           (example_state trained_model)\<lparr>torch_draws := 2\<rparr>)"
    by (simp add: prod_eq_iff upt_rec)
  from branch_dropout_gate [of example_call "example_env\<lparr>is_grad_enabled := True\<rparr>" 2
      "example_state trained_model"]
  have off: "coin_flip (example_env\<lparr>is_grad_enabled := True\<rparr>) example_call 2 (example_state trained_model)
        = (Inr (W_Num 1), example_state trained_model)"
    and one: "mul_weight (pixel 3) (W_Num 1) = Inr (pixel 3)"
    by (simp_all add: example_base_def)
  from branch_dropout_gate [of "example_call\<lparr>a_base_model := None\<rparr>" example_env 2
      "example_state trained_model"]
  have none: "coin_flip example_env (example_call\<lparr>a_base_model := None\<rparr>) 2 (example_state trained_model)
        = (Inl AttributeError, example_state trained_model)"
    by simp
  show ?thesis
    using joint off one none fmt by (simp add: example_base_def)
qed

section \<open>The guided hint is added once\<close>








section \<open>Resampling a weight map\<close>

lemma resample_windows_collect:
  "resample_windows E H W wm wis
     = collect (map (\<lambda>wi. bindE (slice_axis 2 wi (wi + 8) wm) (\<lambda>window.
                             interpolate E window [1, H, W])) wis)"
  by (induction wis) (simp_all add: bindE_def split: sum.splits)

lemma range_from1_step8_frames:
  "range_from1_step8 (Suc (8 * n)) = map (\<lambda>t. 8 * (t - 1) + 1) [Suc 0..<Suc n]"
proof -
  have "[Suc 0..<Suc n] = map Suc [0..<n]"
    using map_Suc_upt [of 0 n] by simp
  then show ?thesis
    by (simp add: range_from1_step8_def o_def del: upt_Suc)
qed

lemma window_end: "0 < t \<Longrightarrow> 8 * (t - 1) + 1 + 8 = 8 * t + (1::nat)"
  by (cases t) simp_all

lemma windows_frames:
  "resample_windows E H W wm (range_from1_step8 (Suc (8 * n)))
     = collect (map (resampled_frame E H W wm) [Suc 0..<Suc n])"
proof -
  have "bindE (slice_axis 2 (8 * (t - 1) + 1) (8 * (t - 1) + 1 + 8) wm)
          (\<lambda>window. interpolate E window [1, H, W])
        = resampled_frame E H W wm t" if "t \<in> set [Suc 0..<Suc n]" for t
  proof -
    from that have "0 < t"
      by (simp del: upt_Suc)
    then show ?thesis
      unfolding window_end [OF \<open>0 < t\<close>] by (simp add: resampled_frame_def frame_window_def)
  qed
  then have "map (\<lambda>wi. bindE (slice_axis 2 wi (wi + 8) wm) (\<lambda>window. interpolate E window [1, H, W]))
          (map (\<lambda>t. 8 * (t - 1) + 1) [Suc 0..<Suc n])
        = map (resampled_frame E H W wm) [Suc 0..<Suc n]"
    unfolding map_map o_def by (rule map_cong [OF refl])
  then show ?thesis
    unfolding resample_windows_collect range_from1_step8_frames by (rule arg_cong)
qed

lemma collect_length: "collect rs = Inr vs \<Longrightarrow> length vs = length rs"
  by (induction rs arbitrary: vs) (auto simp: bindE_eq_Inr)

lemma collect_nth: "collect rs = Inr vs \<Longrightarrow> n < length rs \<Longrightarrow> rs ! n = Inr (vs ! n)"
proof (induction rs arbitrary: vs n)
  case Nil
  then show ?case by simp
next
  case (Cons r rs)
  then show ?case
    by (cases n) (auto simp: bindE_eq_Inr)
qed

lemma cat2_axis:
  "cat2 d a b = Inr c \<Longrightarrow> d < length (shape c) \<and> shape c ! d = shape a ! d + shape b ! d"
  by (auto simp: cat2_def cat_compatible_def split: if_splits)

lemma torch_cat_axis:
  "torch_cat ts d = Inr out \<Longrightarrow>
   d < length (shape out) \<and> shape out ! d = sum_list (map (\<lambda>t. shape t ! d) ts)"
proof (induction ts d arbitrary: out rule: torch_cat.induct)
  case (1 d)
  then show ?case by simp
next
  case (2 t d)
  then show ?case by (auto split: if_splits)
next
  case (3 t u ts d)
  from "3.prems" obtain tu where tu: "cat2 d t u = Inr tu" and rest: "torch_cat (tu # ts) d = Inr out"
    by (auto split: sum.splits)
  from "3.IH" [OF tu rest] cat2_axis [OF tu] show ?case
    by simp
qed

lemma resampled_frame_axis:
  "resampled_frame E H W wm t = Inr f \<Longrightarrow> length (shape wm) = 5 \<Longrightarrow> shape f ! 2 = 1"
  by (auto simp: resampled_frame_def bindE_eq_Inr interpolate_def slice_axis_def Let_def
      nth_append split: prod.splits if_splits)

lemma resampled_map_frames:
  assumes "resampled_map E T H W wm = Inr out" and "length (shape wm) = 5"
  shows "size_at out 2 = Inr T"
proof -
  from assms(1) obtain frames where
    fs: "collect (map (resampled_frame E H W wm) [0..<T]) = Inr frames"
    and cat: "torch_cat frames 2 = Inr out"
    by (auto simp: resampled_map_def bindE_eq_Inr)
  from collect_length [OF fs] have len: "length frames = T"
    by simp
  have "shape f ! 2 = 1" if "f \<in> set frames" for f
  proof -
    from that obtain n where n: "n < T" and f: "f = frames ! n"
      using len by (auto simp: in_set_conv_nth)
    from collect_nth [OF fs, of n] n have "resampled_frame E H W wm n = Inr f"
      by (simp add: f)
    then show ?thesis
      using assms(2) by (rule resampled_frame_axis)
  qed
  then have "map (\<lambda>t. shape t ! 2) frames = replicate (length frames) 1"
    by (simp add: map_replicate_const [symmetric] cong: map_cong)
  then have "sum_list (map (\<lambda>t. shape t ! 2) frames) = T"
    by (simp add: len sum_list_replicate)
  with torch_cat_axis [OF cat] show ?thesis
    by (simp add: size_at_def)
qed

text \<open>
  C3. For a weight map of five axes whose last three are not \<open>(T, H, W)\<close>: unless its
  temporal length is \<open>8 (T - 1) + 1\<close> the assertion of line 426 fails; with that length the
  result (a tensor or an error) is that of \<open>resampled_map\<close>, and when it is a tensor it has
  exactly \<open>T\<close> frames.
\<close>

theorem weight_map_resampling:
  assumes "take 3 (drop 2 (shape wm)) \<noteq> [T, H, W]" and "length (shape wm) = 5"
  shows "(int (shape wm ! 2) \<noteq> 8 * (int T - 1) + 1 \<longrightarrow>
            resample_weight_map E T H W wm = Inl AssertionError)
         \<and> (int (shape wm ! 2) = 8 * (int T - 1) + 1 \<longrightarrow>
              resample_weight_map E T H W wm = resampled_map E T H W wm)
         \<and> (\<forall>out. resample_weight_map E T H W wm = Inr out \<longrightarrow> size_at out 2 = Inr T)"
proof -
  have sz: "size_at wm 2 = Inr (shape wm ! 2)"
    using assms(2) by (simp add: size_at_def)
  have no: "resample_weight_map E T H W wm = Inl AssertionError"
    if "int (shape wm ! 2) \<noteq> 8 * (int T - 1) + 1"
    using that assms(1) by (simp add: resample_weight_map_def sz)
  have yes: "resample_weight_map E T H W wm = resampled_map E T H W wm"
    if eq: "int (shape wm ! 2) = 8 * (int T - 1) + 1"
  proof -
    from eq obtain n where T: "T = Suc n" and Tw: "shape wm ! 2 = Suc (8 * n)"
      by (cases T) auto
    let ?first = "resampled_frame E H W wm 0"
    let ?others = "collect (map (resampled_frame E H W wm) [Suc 0..<Suc n])"
    have first: "?first = bindE (slice_axis 2 0 1 wm) (\<lambda>window. interpolate E window [1, H, W])"
      by (simp add: resampled_frame_def frame_window_def)
    have "resample_weight_map E T H W wm
          = bindE (slice_axis 2 0 1 wm) (\<lambda>leading.
            bindE (interpolate E leading [1, H, W]) (\<lambda>first.
            bindE (resample_windows E H W wm (range_from1_step8 (Suc (8 * n)))) (\<lambda>others.
              torch_cat (first # others) 2)))"
      using assms by (simp add: resample_weight_map_def sz Tw T)
    also have "\<dots> = bindE ?first (\<lambda>first. bindE ?others (\<lambda>others. torch_cat (first # others) 2))"
      unfolding windows_frames first by (simp add: bindE_def split: sum.splits)
    also have "\<dots> = resampled_map E T H W wm"
      unfolding resampled_map_def T upt_conv_Cons [OF zero_less_Suc]
      by (simp add: bindE_def del: upt_Suc split: sum.splits)
    finally show ?thesis .
  qed
  have "size_at out 2 = Inr T" if "resample_weight_map E T H W wm = Inr out" for out
  proof (cases "int (shape wm ! 2) = 8 * (int T - 1) + 1")
    case True
    with yes that have "resampled_map E T H W wm = Inr out"
      by simp
    then show ?thesis
      using assms(2) by (rule resampled_map_frames)
  next
    case False
    with no that show ?thesis
      by simp
  qed
  with no yes show ?thesis
    by blast
qed

lemma example_resampled_map:
  "resampled_map mean_env 2 (Suc 0) (Suc 0) example_weight_map
     = Inr \<lparr>shape = [Suc 0, Suc 0, 2, Suc 0, Suc 0], elems = [10, 9 / 2]\<rparr>"
  by (simp add: resampled_map_def resampled_frame_def frame_window_def slice_axis_def Let_def
      interpolate_def example_weight_map_def mean_env_def numel_def upt_rec eval_nat_numeral
      cat2_def cat_compatible_def)

theorem weight_map_resampling_witness:
  "take 3 (drop 2 (shape example_weight_map)) \<noteq> [2, 1, 1]
   \<and> length (shape example_weight_map) = 5
   \<and> int (shape example_weight_map ! 2) = 8 * (int 2 - 1) + 1
   \<and> resample_weight_map mean_env 2 1 1 example_weight_map
       = Inr \<lparr>shape = [1, 1, 2, 1, 1], elems = [10, 9 / 2]\<rparr>
   \<and> size_at \<lparr>shape = [1, 1, 2, 1, 1], elems = [10, 9 / 2]\<rparr> 2 = Inr 2
   \<and> take 3 (drop 2 (shape example_weight_map)) \<noteq> [3, 1, 1]
   \<and> int (shape example_weight_map ! 2) \<noteq> 8 * (int 3 - 1) + 1
   \<and> resample_weight_map mean_env 3 1 1 example_weight_map = Inl AssertionError"
proof -
  have sh: "take 3 (drop 2 (shape example_weight_map)) \<noteq> [2, 1, 1]"
    "take 3 (drop 2 (shape example_weight_map)) \<noteq> [3, 1, 1]"
    "length (shape example_weight_map) = 5" "shape example_weight_map ! 2 = 9"
    by (simp_all add: example_weight_map_def)
  from weight_map_resampling [OF sh(1) sh(3), of mean_env] sh(4)
  have two: "resample_weight_map mean_env 2 1 1 example_weight_map
               = Inr \<lparr>shape = [1, 1, 2, 1, 1], elems = [10, 9 / 2]\<rparr>"
    and sz: "size_at \<lparr>shape = [1, 1, 2, 1, 1], elems = [10, 9 / 2]\<rparr> 2 = Inr 2"
    by (simp_all add: example_resampled_map size_at_def)
  from weight_map_resampling [OF sh(2) sh(3), of mean_env] sh(4)
  have three: "resample_weight_map mean_env 3 1 1 example_weight_map = Inl AssertionError"
    by simp
  from two sz three sh show ?thesis
    by simp
qed

end
